theory Spec2Isabelle
  imports Complex_Main "HOL-Library.Word" "HOL-Library.List_Lexorder" "HOL-Library.Sublist"
    "HOL-Library.AList" "HOL-Library.Log_Nat"
begin

unbundle bit_operations_syntax

section \<open>pkg/core/controller.go: the change bitmask\<close>

text \<open>
  \<^verbatim>\<open>type DataSource uint64\<close>. The constant block of the source is
  \<^verbatim>\<open>BurbleDataSource DataSource = 0 << 1\<close>, \<^verbatim>\<open>JumprunDataSource = 1 << 1\<close>,
  \<^verbatim>\<open>METARDataSource = 2 << 1\<close>, \<^verbatim>\<open>WindsAloftDataSource = 3 << 1\<close>,
  \<^verbatim>\<open>SettingsDataSource = 4 << 1\<close>: the left operand is the ordinal and the shift count
  is always 1. Go's \<^verbatim>\<open>a << n\<close> is \<open>push_bit n a\<close>.
\<close>

type_synonym DataSource = "64 word"

definition BurbleDataSource :: DataSource where
  "BurbleDataSource = push_bit 1 0"

definition JumprunDataSource :: DataSource where
  "JumprunDataSource = push_bit 1 1"

definition METARDataSource :: DataSource where
  "METARDataSource = push_bit 1 2"

definition WindsAloftDataSource :: DataSource where
  "WindsAloftDataSource = push_bit 1 3"

definition SettingsDataSource :: DataSource where
  "SettingsDataSource = push_bit 1 4"

text \<open>
  pkg/server/grpc.go names the settings flag \<^verbatim>\<open>core.OptionsDataSource\<close>; the only
  declaration for that category in pkg/core/controller.go is \<^verbatim>\<open>SettingsDataSource\<close>.
\<close>

definition OptionsDataSource :: DataSource where
  "OptionsDataSource = SettingsDataSource"

text \<open>
  Both listeners (the gRPC broadcaster and the legacy static-content updater) receive one
  mask and then empty the channel without blocking, OR-ing every pending mask in:
  \<^verbatim>\<open>drain: for { select { case s := <-c: source |= s; default: break drain } }\<close>.
  The channel is the list of masks queued on it, oldest first.
\<close>

fun drain :: "DataSource \<Rightarrow> DataSource list \<Rightarrow> DataSource" where
  "drain source [] = source"
| "drain source (s # c) = drain (source OR s) c"

section \<open>pkg/server/legacy.go: the static-content updater\<close>

text \<open>
  The goroutine of \<^verbatim>\<open>EnableLegacySupport\<close>, case \<^verbatim>\<open>source := <-c\<close>: the calls it
  makes, in order. \<open>None\<close>: nothing is queued, the case is not ready.
\<close>

datatype legacy_call = updateWindsStaticData | updateJumprunStaticData | updateManifestStaticData

definition legacy_calls :: "DataSource \<Rightarrow> legacy_call list" where
  "legacy_calls source =
     (if source AND WindsAloftDataSource \<noteq> 0 then [updateWindsStaticData] else []) @
     (if source AND JumprunDataSource \<noteq> 0 then [updateJumprunStaticData] else []) @
     [updateManifestStaticData]"

definition legacy_source_case :: "DataSource list \<Rightarrow> (legacy_call list \<times> DataSource list) option" where
  "legacy_source_case c =
     (case c of
        [] \<Rightarrow> None
      | source # pending \<Rightarrow> Some (legacy_calls (drain source pending), []))"

section \<open>The producers, as the engine reads them\<close>

text \<open>
  The packages burble, jumprun, winds and settings are collaborators of the engine. A
  \<open>Controller\<close> value below is what the accessors of \<^verbatim>\<open>core.Controller\<close> return at
  one moment: each collaborator is the record of the values the engine reads from it, and
  an optional data source is \<open>None\<close> where the Go pointer is nil. Go's \<^verbatim>\<open>int\<close> and
  \<^verbatim>\<open>int64\<close> are \<open>64 word\<close>, read as signed with \<open>sint\<close>.
\<close>

datatype burble_Jumper = burble_Jumper
  (burble_ID: "64 word") (burble_Name: string) (burble_ShortName: string)
  (burble_Nickname: string) (burble_IsTandem: bool) (burble_IsStudent: bool)
  (burble_IsVideographer: bool) (burble_IsInstructor: bool)
  (burble_GroupMembers: "burble_Jumper list")

record burble_Load =
  load_ID :: "64 word"
  load_AircraftName :: string
  load_LoadNumber :: string
  load_CallMinutes :: "64 word"
  load_SlotsAvailable :: "64 word"
  load_IsFueling :: bool
  load_IsTurning :: bool
  load_IsNoTime :: bool
  load_Tandems :: "burble_Jumper list"
  load_Students :: "burble_Jumper list"
  load_SportJumpers :: "burble_Jumper list"

record burble_Controller =
  burble_ColumnCount :: "64 word"
  burble_Loads :: "burble_Load list"

record jumprun_HookTurn =
  turn_Distance :: "64 word"
  turn_Heading :: "64 word"

record jumprun_Jumprun =
  jumprun_TimeStamp :: "64 word"
  jumprun_Latitude :: string
  jumprun_Longitude :: string
  jumprun_MagneticDeclination :: "64 word"
  jumprun_CameraHeight :: "64 word"
  jumprun_IsSet :: bool
  jumprun_Heading :: "64 word"
  jumprun_ExitDistance :: "64 word"
  jumprun_OffsetHeading :: "64 word"
  jumprun_OffsetDistance :: "64 word"
  jumprun_HookTurns :: "jumprun_HookTurn list"

record winds_Sample =
  sample_Altitude :: "64 word"
  sample_Heading :: "64 word"
  sample_Speed :: "64 word"
  sample_Temperature :: "64 word"
  sample_LightAndVariable :: bool

record metar_Controller =
  metar_WindConditions :: string
  metar_SkyCover :: string
  metar_WeatherConditions :: string
  metar_TemperatureString :: string

record settings_Options =
  settings_DisplayNicknames :: bool
  settings_DisplayWeather :: bool
  settings_DisplayWinds :: bool
  settings_Message :: string

record settings_Settings =
  settings_Options :: settings_Options
  settings_WindsLatitude :: string
  settings_WindsLongitude :: string

text \<open>
  \<open>jumprun\<close>, \<open>metarSource\<close> and \<open>windsAloftSource\<close> are set by \<^verbatim>\<open>NewController\<close> only
  when the feed is enabled; \<open>burbleSource\<close> always is. \<open>windsAloftSource\<close> holds what
  \<^verbatim>\<open>Samples()\<close> returns. \<open>SeparationStrings\<close> is the (colour, text) pair of the method of
  that name, which pkg/server/grpc.go calls and pkg/core/controller.go does not declare.
\<close>

record Controller =
  burbleSource :: burble_Controller
  jumprun :: "jumprun_Jumprun option"
  metarSource :: "metar_Controller option"
  windsAloftSource :: "winds_Sample list option"
  settings :: settings_Settings
  SeparationStrings :: "string \<times> string"

text \<open>
  A Go error return is \<open>Inl (Error msg)\<close>. A nil pointer dereference is a run-time panic,
  which ends the process: \<open>Inl (Panic msg)\<close>.
\<close>

datatype failure = Error string | Panic string

section \<open>pkg/core/controller.go: the day-boundary scheduler\<close>

text \<open>
  A \<^verbatim>\<open>time.Time\<close> as the scheduler observes it: the instant that \<^verbatim>\<open>Equal\<close> and
  \<^verbatim>\<open>After\<close> compare (\<open>wall\<close>, in nanoseconds), and the calendar date that \<^verbatim>\<open>Date()\<close>
  returns in the value's location.
\<close>

record Time =
  wall :: int
  Year :: int
  Month :: int
  Day :: int

definition Equal :: "Time \<Rightarrow> Time \<Rightarrow> bool" where
  "Equal t u = (wall t = wall u)"

definition After :: "Time \<Rightarrow> Time \<Rightarrow> bool" where
  "After t u = (wall u < wall t)"

definition Date :: "Time \<Rightarrow> int \<times> int \<times> int" where
  "Date t = (Year t, Month t, Day t)"

text \<open>
  \<^verbatim>\<open>Coordinates\<close>. \<open>ParseFloat\<close> stands for \<^verbatim>\<open>strconv.ParseFloat(_, 64)\<close>, \<open>None\<close> for its
  error; \<open>'f\<close> is the type of \<^verbatim>\<open>float64\<close> values, which the engine only passes on.
  \<^verbatim>\<open>(*metar.Controller).Location\<close> reads \<^verbatim>\<open>c.settings\<close>, so it panics on a nil receiver;
  it parses the winds coordinates of the settings.
\<close>

definition metar_Location :: "(string \<Rightarrow> 'f option) \<Rightarrow> settings_Settings \<Rightarrow> ('f \<times> 'f) option" where
  "metar_Location ParseFloat st =
     (case ParseFloat (settings_WindsLatitude st) of
        None \<Rightarrow> None
      | Some latitude \<Rightarrow>
          (case ParseFloat (settings_WindsLongitude st) of
             None \<Rightarrow> None
           | Some longitude \<Rightarrow> Some (latitude, longitude)))"

definition Coordinates_metar :: "(string \<Rightarrow> 'f option) \<Rightarrow> Controller \<Rightarrow> failure + ('f \<times> 'f)" where
  "Coordinates_metar ParseFloat c =
     (case metarSource c of
        None \<Rightarrow> Inl (Panic ''invalid memory address or nil pointer dereference'')
      | Some m \<Rightarrow>
          (case metar_Location ParseFloat (settings c) of
             Some ll \<Rightarrow> Inr ll
           | None \<Rightarrow> Inl (Error ''location is unknown'')))"

definition Coordinates_winds :: "(string \<Rightarrow> 'f option) \<Rightarrow> Controller \<Rightarrow> failure + ('f \<times> 'f)" where
  "Coordinates_winds ParseFloat c =
     (case windsAloftSource c of
        None \<Rightarrow> Coordinates_metar ParseFloat c
      | Some w \<Rightarrow>
          (case ParseFloat (settings_WindsLatitude (settings c)) of
             None \<Rightarrow> Coordinates_metar ParseFloat c
           | Some latitude \<Rightarrow>
               (case ParseFloat (settings_WindsLongitude (settings c)) of
                  None \<Rightarrow> Coordinates_metar ParseFloat c
                | Some longitude \<Rightarrow> Inr (latitude, longitude))))"

definition Coordinates :: "(string \<Rightarrow> 'f option) \<Rightarrow> Controller \<Rightarrow> failure + ('f \<times> 'f)" where
  "Coordinates ParseFloat c =
     (case jumprun c of
        None \<Rightarrow> Coordinates_winds ParseFloat c
      | Some j \<Rightarrow>
          if jumprun_IsSet j \<and> jumprun_Latitude j \<noteq> [] \<and> jumprun_Longitude j \<noteq> [] then
            (case ParseFloat (jumprun_Latitude j) of
               None \<Rightarrow> Coordinates_winds ParseFloat c
             | Some latitude \<Rightarrow>
                 (case ParseFloat (jumprun_Longitude j) of
                    None \<Rightarrow> Coordinates_winds ParseFloat c
                  | Some longitude \<Rightarrow> Inr (latitude, longitude)))
          else Coordinates_winds ParseFloat c)"

text \<open>
  One pass of the loop of \<^verbatim>\<open>runAtSunriseSunset\<close> reads: the controller as it is then;
  what \<^verbatim>\<open>sunrisesunset.GetSunriseSunset\<close> answers for the coordinates (\<open>Inl\<close> its error),
  already moved to today's date by \<^verbatim>\<open>time.Date\<close>, as (sunrise, sunset); the second
  \<^verbatim>\<open>CurrentTime()\<close>; and which case the final \<^verbatim>\<open>select\<close> takes (\<open>tick_done\<close>: the
  controller was closed).
\<close>

record 'f tick =
  tick_app :: Controller
  tick_GetSunriseSunset :: "'f \<Rightarrow> 'f \<Rightarrow> string + (Time \<times> Time)"
  tick_now :: Time
  tick_done :: bool

definition SunriseAndSunsetTimes :: "(string \<Rightarrow> 'f option) \<Rightarrow> 'f tick \<Rightarrow> failure + (Time \<times> Time)" where
  "SunriseAndSunsetTimes ParseFloat t =
     (case Coordinates ParseFloat (tick_app t) of
        Inl e \<Rightarrow> Inl e
      | Inr (latitude, longitude) \<Rightarrow>
          (case tick_GetSunriseSunset t latitude longitude of
             Inl e \<Rightarrow> Inl (Error e)
           | Inr sun \<Rightarrow> Inr sun))"

text \<open>
  The loop's variables, and \<open>ran\<close>: the calls of \<^verbatim>\<open>c.sunset()\<close> and \<^verbatim>\<open>c.sunrise()\<close> made
  so far, oldest first, each with the date it was made for (bookkeeping of the model).
\<close>

datatype transition = sunset "int list" | sunrise "int list"

record scheduler =
  lastSunrise :: "int list"
  lastSunset :: "int list"
  ran :: "transition list"

definition scheduler_init :: scheduler where
  "scheduler_init = \<lparr>lastSunrise = [0, 0, 0], lastSunset = [0, 0, 0], ran = []\<rparr>"

definition marker :: "Time \<Rightarrow> int list" where
  "marker t = (case Date t of (y, m, d) \<Rightarrow> [y, m, d])"

definition at_sunset :: "Time \<Rightarrow> Time \<Rightarrow> scheduler \<Rightarrow> scheduler" where
  "at_sunset now sunset_time s =
     (if Equal now sunset_time \<or> After now sunset_time then
        (let thisSunset = marker sunset_time in
           if lastSunset s \<noteq> thisSunset
           then s\<lparr>ran := ran s @ [sunset thisSunset], lastSunset := thisSunset\<rparr>
           else s)
      else s)"

definition at_sunrise :: "Time \<Rightarrow> Time \<Rightarrow> scheduler \<Rightarrow> scheduler" where
  "at_sunrise now sunrise_time s =
     (if Equal now sunrise_time \<or> After now sunrise_time then
        (let thisSunrise = marker sunrise_time in
           if lastSunrise s \<noteq> thisSunrise
           then s\<lparr>ran := ran s @ [sunrise thisSunrise], lastSunrise := thisSunrise\<rparr>
           else s)
      else s)"

datatype loop_status = Running | Returned | Crashed

text \<open>
  \<^verbatim>\<open>runAtSunriseSunset\<close> over the passes the environment supplies. \<open>Running\<close>: the
  passes are used up and the loop waits for the next tick. On an error of
  \<^verbatim>\<open>SunriseAndSunsetTimes\<close> the source prints it and executes \<^verbatim>\<open>return\<close>.
\<close>

fun runAtSunriseSunset_loop ::
  "(string \<Rightarrow> 'f option) \<Rightarrow> 'f tick list \<Rightarrow> scheduler \<Rightarrow> scheduler \<times> loop_status" where
  "runAtSunriseSunset_loop ParseFloat [] s = (s, Running)"
| "runAtSunriseSunset_loop ParseFloat (t # ts) s =
     (case SunriseAndSunsetTimes ParseFloat t of
        Inl (Panic p) \<Rightarrow> (s, Crashed)
      | Inl (Error e) \<Rightarrow> (s, Returned)
      | Inr (sunrise_time, sunset_time) \<Rightarrow>
          (let s' = at_sunrise (tick_now t) sunrise_time (at_sunset (tick_now t) sunset_time s)
           in if tick_done t then (s', Returned)
              else runAtSunriseSunset_loop ParseFloat ts s'))"

definition runAtSunriseSunset ::
  "(string \<Rightarrow> 'f option) \<Rightarrow> 'f tick list \<Rightarrow> scheduler \<times> loop_status" where
  "runAtSunriseSunset ParseFloat ts = runAtSunriseSunset_loop ParseFloat ts scheduler_init"

section \<open>pkg/server: the messages\<close>

text \<open>
  The message types of pkg/server are generated from service.proto (see the Makefile),
  which is not among the sources. Their fields are read off the composite literals of
  \<^verbatim>\<open>constructUpdate\<close>, \<^verbatim>\<open>translateJumper\<close> and \<^verbatim>\<open>slotFromJumper\<close>: a field
  assigned a Go \<^verbatim>\<open>string\<close>, \<^verbatim>\<open>bool\<close>, \<^verbatim>\<open>int32\<close> or \<^verbatim>\<open>uint64\<close> is a scalar without
  presence (it is populated exactly when it is not the zero value), a field assigned a
  pointer is a singular message (\<open>None\<close> for nil), and a field that is appended to is
  repeated (a nil slice and an empty one are both \<open>[]\<close>). Field \<open>F\<close> of message \<open>M\<close> is
  \<open>M_F\<close>.
\<close>

datatype JumperType =
  JumperType_EXPERIENCED | JumperType_VIDEOGRAPHER
  | JumperType_TANDEM_STUDENT | JumperType_TANDEM_INSTRUCTOR
  | JumperType_AFF_STUDENT | JumperType_AFF_INSTRUCTOR
  | JumperType_COACH_STUDENT | JumperType_COACH

record Jumper =
  Jumper_Id :: "64 word"
  Jumper_Type :: JumperType
  Jumper_Name :: string
  Jumper_ShortName :: string
  Jumper_Nickname :: string
  Jumper_Color :: string
  Jumper_Repr :: string

record JumperGroup =
  JumperGroup_Leader :: "Jumper option"
  JumperGroup_Members :: "Jumper list"

datatype LoadSlot_Slot = LoadSlot_Jumper Jumper | LoadSlot_Group JumperGroup

record LoadSlot =
  LoadSlot_Slot :: "LoadSlot_Slot option"

record Load =
  Load_Id :: "64 word"
  Load_AircraftName :: string
  Load_LoadNumber :: string
  Load_CallMinutes :: "32 word"
  Load_CallMinutesString :: string
  Load_SlotsAvailable :: "32 word"
  Load_SlotsAvailableString :: string
  Load_IsFueling :: bool
  Load_IsTurning :: bool
  Load_IsNoTime :: bool
  Load_Slots :: "LoadSlot list"

record Loads =
  Loads_ColumnCount :: "32 word"
  Loads_Loads :: "Load list"

record WindsAloftSample =
  WindsAloftSample_Altitude :: "32 word"
  WindsAloftSample_Heading :: "32 word"
  WindsAloftSample_Speed :: "32 word"
  WindsAloftSample_Temperature :: "32 word"
  WindsAloftSample_Variable :: bool

record WindsAloft =
  WindsAloft_Samples :: "WindsAloftSample list"

record JumprunOrigin =
  JumprunOrigin_Latitude :: string
  JumprunOrigin_Longitude :: string
  JumprunOrigin_MagneticDeviation :: "32 word"
  JumprunOrigin_CameraHeight :: "32 word"

record JumprunTurn =
  JumprunTurn_Distance :: "32 word"
  JumprunTurn_Heading :: "32 word"

record JumprunPath =
  JumprunPath_Heading :: "32 word"
  JumprunPath_ExitDistance :: "32 word"
  JumprunPath_OffsetHeading :: "32 word"
  JumprunPath_OffsetDistance :: "32 word"
  JumprunPath_Turns :: "JumprunTurn list"

record Jumprun =
  Jumprun_Origin :: "JumprunOrigin option"
  Jumprun_Path :: "JumprunPath option"

record Status =
  Status_Winds :: string
  Status_WindsColor :: string
  Status_Clouds :: string
  Status_CloudsColor :: string
  Status_Weather :: string
  Status_WeatherColor :: string
  Status_Separation :: string
  Status_SeparationColor :: string
  Status_Temperature :: string
  Status_TemperatureColor :: string

record Options =
  Options_DisplayNicknames :: bool
  Options_DisplayWeather :: bool
  Options_DisplayWinds :: bool
  Options_Message :: string
  Options_MessageColor :: string

text \<open>The aggregate: one optional message per category.\<close>

record ManifestUpdate =
  Status :: "Status option"
  Options :: "Options option"
  Jumprun :: "Jumprun option"
  WindsAloft :: "WindsAloft option"
  Loads :: "Loads option"

definition ManifestUpdate_empty :: ManifestUpdate where
  "ManifestUpdate_empty =
     \<lparr>Status = None, Options = None, Jumprun = None, WindsAloft = None, Loads = None\<rparr>"

section \<open>pkg/server/grpc.go: constructing an update\<close>

text \<open>
  \<^verbatim>\<open>strconv.FormatInt(_, 10)\<close> and the verb \<^verbatim>\<open>%d\<close> of \<^verbatim>\<open>fmt.Sprintf\<close>: the decimal
  digits of a signed integer.
\<close>

fun digits10 :: "nat \<Rightarrow> string" where
  "digits10 n =
     (if n < 10 then [''0123456789'' ! n]
      else digits10 (n div 10) @ [''0123456789'' ! (n mod 10)])"

declare digits10.simps [simp del]

definition FormatInt :: "int \<Rightarrow> string" where
  "FormatInt i = (if i < 0 then CHR ''-'' # digits10 (nat (- i)) else digits10 (nat i))"

text \<open>
  \<^verbatim>\<open>translateJumper(j, leader)\<close>; \<open>options\<close> is \<^verbatim>\<open>s.options\<close>. \<^verbatim>\<open>strings.HasSuffix(s, x)\<close>
  is \<open>suffix x s\<close> and \<^verbatim>\<open>strings.HasPrefix(s, x)\<close> is \<open>prefix x s\<close>.
\<close>

definition translateJumper :: "settings_Options \<Rightarrow> burble_Jumper \<Rightarrow> Jumper option \<Rightarrow> Jumper" where
  "translateJumper options j leader =
     (let (color, pfx) =
            (case leader of
               Some l \<Rightarrow> (Jumper_Color l, [])
             | None \<Rightarrow>
                 if burble_IsTandem j then (''#ffff00'', [])
                 else if burble_IsStudent j \<or> suffix '' + Gear'' (burble_ShortName j) then
                   (''#00ff00'',
                    if suffix '' H/P'' (burble_ShortName j) then ''Hop & Pop'' else [])
                 else if prefix ''3-5k'' (burble_ShortName j) \<or> prefix ''3.5k'' (burble_ShortName j) then
                   (''#ff00ff'', ''Hop & Pop'')
                 else (''#ffffff'', []));
          name =
            (if settings_DisplayNicknames options \<and> burble_Nickname j \<noteq> []
             then burble_Nickname j else burble_Name j);
          repr =
            (case leader of
               None \<Rightarrow>
                 if burble_IsTandem j then ''Tandem: '' @ name
                 else if pfx \<noteq> [] then
                   pfx @ '': '' @ name @ '' ('' @ burble_ShortName j @ '')''
                 else name @ '' ('' @ burble_ShortName j @ '')''
             | Some l \<Rightarrow> [CHR 0x09] @ name @ '' ('' @ burble_ShortName j @ '')'');
          t =
            (if burble_IsVideographer j then JumperType_VIDEOGRAPHER
             else
               (case leader of
                  Some l \<Rightarrow>
                    (case Jumper_Type l of
                       JumperType_TANDEM_STUDENT \<Rightarrow>
                         if burble_IsInstructor j then JumperType_TANDEM_INSTRUCTOR
                         else JumperType_EXPERIENCED
                     | JumperType_AFF_STUDENT \<Rightarrow>
                         if burble_IsInstructor j then JumperType_AFF_INSTRUCTOR
                         else JumperType_EXPERIENCED
                     | JumperType_COACH_STUDENT \<Rightarrow>
                         if burble_IsInstructor j then JumperType_COACH
                         else JumperType_EXPERIENCED
                     | _ \<Rightarrow> JumperType_EXPERIENCED)
                | None \<Rightarrow>
                    if burble_IsTandem j then JumperType_TANDEM_STUDENT
                    else if burble_IsStudent j then JumperType_AFF_STUDENT
                    else JumperType_EXPERIENCED))
      in \<lparr>Jumper_Id = burble_ID j, Jumper_Type = t, Jumper_Name = burble_Name j,
          Jumper_ShortName = burble_ShortName j, Jumper_Nickname = burble_Nickname j,
          Jumper_Color = color, Jumper_Repr = repr\<rparr>)"

definition slotFromJumper :: "settings_Options \<Rightarrow> burble_Jumper \<Rightarrow> LoadSlot" where
  "slotFromJumper options j =
     (if burble_GroupMembers j = [] then
        \<lparr>LoadSlot_Slot = Some (LoadSlot_Jumper (translateJumper options j None))\<rparr>
      else
        (let leader = translateJumper options j None in
           \<lparr>LoadSlot_Slot = Some (LoadSlot_Group
              \<lparr>JumperGroup_Leader = Some leader,
               JumperGroup_Members =
                 map (\<lambda>member. translateJumper options member (Some leader))
                   (burble_GroupMembers j)\<rparr>)\<rparr>))"

text \<open>
  The blocks of \<^verbatim>\<open>constructUpdate\<close>, one per category. \<^verbatim>\<open>int32(x)\<close> keeps the low 32
  bits (\<open>ucast\<close>); \<^verbatim>\<open>l.CallMinutes <= 5\<close> compares signed values.
\<close>

definition construct_Options :: "settings_Options \<Rightarrow> Options" where
  "construct_Options o' =
     \<lparr>Options_DisplayNicknames = settings_DisplayNicknames o',
      Options_DisplayWeather = settings_DisplayWeather o',
      Options_DisplayWinds = settings_DisplayWinds o',
      Options_Message = settings_Message o',
      Options_MessageColor = ''#ffffff''\<rparr>"

definition construct_Status :: "Controller \<Rightarrow> Status" where
  "construct_Status app =
     (let (separationColor, separationString) =
            (if windsAloftSource app \<noteq> None then SeparationStrings app else (''#ffffff'', []));
          (winds, clouds, weather, temperature) =
            (case metarSource app of
               Some m \<Rightarrow>
                 (metar_WindConditions m, metar_SkyCover m, metar_WeatherConditions m,
                  metar_TemperatureString m)
             | None \<Rightarrow> ([], [], [], []))
      in \<lparr>Status_Winds = winds, Status_WindsColor = ''#ffffff'',
          Status_Clouds = clouds, Status_CloudsColor = ''#ffffff'',
          Status_Weather = weather, Status_WeatherColor = ''#ffffff'',
          Status_Separation = separationString, Status_SeparationColor = separationColor,
          Status_Temperature = temperature, Status_TemperatureColor = ''#ffffff''\<rparr>)"

definition construct_Jumprun :: "jumprun_Jumprun \<Rightarrow> Jumprun" where
  "construct_Jumprun j =
     \<lparr>Jumprun_Origin = Some
        \<lparr>JumprunOrigin_Latitude = jumprun_Latitude j,
         JumprunOrigin_Longitude = jumprun_Longitude j,
         JumprunOrigin_MagneticDeviation = ucast (jumprun_MagneticDeclination j),
         JumprunOrigin_CameraHeight = ucast (jumprun_CameraHeight j)\<rparr>,
      Jumprun_Path =
        (if jumprun_IsSet j then Some
           \<lparr>JumprunPath_Heading = ucast (jumprun_Heading j),
            JumprunPath_ExitDistance = ucast (jumprun_ExitDistance j),
            JumprunPath_OffsetHeading = ucast (jumprun_OffsetHeading j),
            JumprunPath_OffsetDistance = ucast (jumprun_OffsetDistance j),
            JumprunPath_Turns =
              map (\<lambda>t. \<lparr>JumprunTurn_Distance = ucast (turn_Distance t),
                         JumprunTurn_Heading = ucast (turn_Heading t)\<rparr>)
                (takeWhile (\<lambda>t. \<not> (turn_Distance t = 0 \<and> turn_Heading t = 0))
                   (jumprun_HookTurns j))\<rparr>
         else None)\<rparr>"

definition construct_WindsAloft :: "winds_Sample list \<Rightarrow> WindsAloft" where
  "construct_WindsAloft samples =
     \<lparr>WindsAloft_Samples =
        map (\<lambda>sample.
               \<lparr>WindsAloftSample_Altitude = ucast (sample_Altitude sample),
                WindsAloftSample_Heading = ucast (sample_Heading sample),
                WindsAloftSample_Speed = ucast (sample_Speed sample),
                WindsAloftSample_Temperature = ucast (sample_Temperature sample),
                WindsAloftSample_Variable = sample_LightAndVariable sample\<rparr>)
          samples\<rparr>"

definition construct_Load :: "settings_Options \<Rightarrow> burble_Load \<Rightarrow> Load" where
  "construct_Load options l =
     (let callMinutes =
            (if \<not> load_IsNoTime l then
               (if load_CallMinutes l = 0 then ''NOW''
                else FormatInt (sint (load_CallMinutes l)))
             else []);
          slotsAvailable =
            (if sint (load_CallMinutes l) \<le> 5 then
               FormatInt (sint (load_SlotsAvailable l)) @ '' aboard''
             else if load_SlotsAvailable l = 1 then ''1 slot''
             else FormatInt (sint (load_SlotsAvailable l)) @ '' slots'')
      in \<lparr>Load_Id = load_ID l,
          Load_AircraftName = load_AircraftName l,
          Load_LoadNumber = load_LoadNumber l,
          Load_CallMinutes = ucast (load_CallMinutes l),
          Load_CallMinutesString = callMinutes,
          Load_SlotsAvailable = ucast (load_SlotsAvailable l),
          Load_SlotsAvailableString = slotsAvailable,
          Load_IsFueling = load_IsFueling l,
          Load_IsTurning = load_IsTurning l,
          Load_IsNoTime = load_IsNoTime l,
          Load_Slots =
            map (slotFromJumper options)
              (load_Tandems l @ load_Students l @ load_SportJumpers l)\<rparr>)"

definition construct_Loads :: "settings_Options \<Rightarrow> burble_Controller \<Rightarrow> Loads" where
  "construct_Loads options b =
     \<lparr>Loads_ColumnCount = ucast (burble_ColumnCount b),
      Loads_Loads = map (construct_Load options) (burble_Loads b)\<rparr>"

definition optionsSources :: DataSource where
  "optionsSources = OptionsDataSource"

definition statusSources :: DataSource where
  "statusSources = METARDataSource OR WindsAloftDataSource"

definition jumprunSources :: DataSource where
  "jumprunSources = JumprunDataSource"

definition windsAloftSources :: DataSource where
  "windsAloftSources = WindsAloftDataSource"

definition loadsSources :: DataSource where
  "loadsSources = BurbleDataSource"

text \<open>
  \<^verbatim>\<open>constructUpdate(source)\<close> reads the controller \<open>app\<close> and \<^verbatim>\<open>s.options\<close>, which its
  options block overwrites; it returns the update and the new \<^verbatim>\<open>s.options\<close>. The
  jump-run block calls \<^verbatim>\<open>s.app.Jumprun().Jumprun()\<close> and the wind-aloft block
  \<^verbatim>\<open>w.Samples()\<close> without a nil check (the status block has one for each source); on a
  nil controller that is taken to panic, as the methods of the controllers in the sources
  do on a nil receiver.
\<close>

definition constructUpdate ::
  "Controller \<Rightarrow> settings_Options \<Rightarrow> DataSource \<Rightarrow> failure + (ManifestUpdate \<times> settings_Options)" where
  "constructUpdate app options source =
     (let options' =
            (if source AND optionsSources \<noteq> 0 then settings_Options (settings app) else options)
      in if source AND jumprunSources \<noteq> 0 \<and> jumprun app = None then
           Inl (Panic ''invalid memory address or nil pointer dereference'')
         else if source AND windsAloftSources \<noteq> 0 \<and> windsAloftSource app = None then
           Inl (Panic ''invalid memory address or nil pointer dereference'')
         else Inr
           (\<lparr>Status =
               (if source AND statusSources \<noteq> 0 then Some (construct_Status app) else None),
             Options =
               (if source AND optionsSources \<noteq> 0 then Some (construct_Options options') else None),
             Jumprun =
               (if source AND jumprunSources \<noteq> 0
                then map_option construct_Jumprun (jumprun app) else None),
             WindsAloft =
               (if source AND windsAloftSources \<noteq> 0
                then map_option construct_WindsAloft (windsAloftSource app) else None),
             Loads =
               (if source AND loadsSources \<noteq> 0
                then Some (construct_Loads options' (burbleSource app)) else None)\<rparr>,
            options'))"

section \<open>pkg/server/grpc.go: diff and merge\<close>

text \<open>
  \<^verbatim>\<open>proto.Equal\<close> on two message pointers of one type: a nil pointer equals only a nil
  pointer, and two messages are equal when they have the same populated fields with equal
  values. No message here has a floating-point field, so on the records above this is
  equality.
\<close>

definition proto_Equal :: "'m option \<Rightarrow> 'm option \<Rightarrow> bool" where
  "proto_Equal x y = (x = y)"

text \<open>
  \<^verbatim>\<open>x.diff(y)\<close> clears in \<open>x\<close> every category that equals the one of \<open>y\<close>, and reports
  whether a category is left. It returns the changed \<open>x\<close> with the result.
\<close>

definition diff :: "ManifestUpdate \<Rightarrow> ManifestUpdate \<Rightarrow> ManifestUpdate \<times> bool" where
  "diff x y =
     (let x = (if proto_Equal (Status x) (Status y) then x\<lparr>Status := None\<rparr> else x);
          x = (if proto_Equal (Options x) (Options y) then x\<lparr>Options := None\<rparr> else x);
          x = (if proto_Equal (Jumprun x) (Jumprun y) then x\<lparr>Jumprun := None\<rparr> else x);
          x = (if proto_Equal (WindsAloft x) (WindsAloft y) then x\<lparr>WindsAloft := None\<rparr> else x);
          x = (if proto_Equal (Loads x) (Loads y) then x\<lparr>Loads := None\<rparr> else x)
      in (x, Status x \<noteq> None \<or> Options x \<noteq> None \<or> Jumprun x \<noteq> None \<or>
             WindsAloft x \<noteq> None \<or> Loads x \<noteq> None))"

text \<open>
  \<^verbatim>\<open>proto.Merge(dst, src)\<close> of google.golang.org/protobuf, as its documentation states
  it: populated scalar fields of \<open>src\<close> are copied to \<open>dst\<close>; a populated singular message
  of \<open>src\<close> is merged into the one of \<open>dst\<close> by a recursive call (into a new empty message
  when \<open>dst\<close> has none); the elements of every list field of \<open>src\<close> are appended to the
  list of \<open>dst\<close>. A scalar without presence is populated when it is not the zero value.
\<close>

definition merge_string :: "string \<Rightarrow> string \<Rightarrow> string" where
  "merge_string dst src = (if src \<noteq> [] then src else dst)"

definition merge_bool :: "bool \<Rightarrow> bool \<Rightarrow> bool" where
  "merge_bool dst src = (if src then src else dst)"

definition merge_int32 :: "32 word \<Rightarrow> 32 word \<Rightarrow> 32 word" where
  "merge_int32 dst src = (if src \<noteq> 0 then src else dst)"

definition merge_message :: "'m \<Rightarrow> ('m \<Rightarrow> 'm \<Rightarrow> 'm) \<Rightarrow> 'm option \<Rightarrow> 'm option \<Rightarrow> 'm option" where
  "merge_message blank mrg dst src =
     (case src of
        None \<Rightarrow> dst
      | Some m \<Rightarrow> Some (mrg (case dst of None \<Rightarrow> blank | Some d \<Rightarrow> d) m))"

definition Merge_Status :: "Status \<Rightarrow> Status \<Rightarrow> Status" where
  "Merge_Status dst src =
     \<lparr>Status_Winds = merge_string (Status_Winds dst) (Status_Winds src),
      Status_WindsColor = merge_string (Status_WindsColor dst) (Status_WindsColor src),
      Status_Clouds = merge_string (Status_Clouds dst) (Status_Clouds src),
      Status_CloudsColor = merge_string (Status_CloudsColor dst) (Status_CloudsColor src),
      Status_Weather = merge_string (Status_Weather dst) (Status_Weather src),
      Status_WeatherColor = merge_string (Status_WeatherColor dst) (Status_WeatherColor src),
      Status_Separation = merge_string (Status_Separation dst) (Status_Separation src),
      Status_SeparationColor =
        merge_string (Status_SeparationColor dst) (Status_SeparationColor src),
      Status_Temperature = merge_string (Status_Temperature dst) (Status_Temperature src),
      Status_TemperatureColor =
        merge_string (Status_TemperatureColor dst) (Status_TemperatureColor src)\<rparr>"

definition Status_empty :: Status where
  "Status_empty =
     \<lparr>Status_Winds = [], Status_WindsColor = [], Status_Clouds = [],
      Status_CloudsColor = [], Status_Weather = [], Status_WeatherColor = [],
      Status_Separation = [], Status_SeparationColor = [], Status_Temperature = [],
      Status_TemperatureColor = []\<rparr>"

definition Merge_Options :: "Options \<Rightarrow> Options \<Rightarrow> Options" where
  "Merge_Options dst src =
     \<lparr>Options_DisplayNicknames =
        merge_bool (Options_DisplayNicknames dst) (Options_DisplayNicknames src),
      Options_DisplayWeather =
        merge_bool (Options_DisplayWeather dst) (Options_DisplayWeather src),
      Options_DisplayWinds = merge_bool (Options_DisplayWinds dst) (Options_DisplayWinds src),
      Options_Message = merge_string (Options_Message dst) (Options_Message src),
      Options_MessageColor =
        merge_string (Options_MessageColor dst) (Options_MessageColor src)\<rparr>"

definition Options_empty :: Options where
  "Options_empty =
     \<lparr>Options_DisplayNicknames = False, Options_DisplayWeather = False,
      Options_DisplayWinds = False, Options_Message = [], Options_MessageColor = []\<rparr>"

definition Merge_JumprunOrigin :: "JumprunOrigin \<Rightarrow> JumprunOrigin \<Rightarrow> JumprunOrigin" where
  "Merge_JumprunOrigin dst src =
     \<lparr>JumprunOrigin_Latitude =
        merge_string (JumprunOrigin_Latitude dst) (JumprunOrigin_Latitude src),
      JumprunOrigin_Longitude =
        merge_string (JumprunOrigin_Longitude dst) (JumprunOrigin_Longitude src),
      JumprunOrigin_MagneticDeviation =
        merge_int32 (JumprunOrigin_MagneticDeviation dst) (JumprunOrigin_MagneticDeviation src),
      JumprunOrigin_CameraHeight =
        merge_int32 (JumprunOrigin_CameraHeight dst) (JumprunOrigin_CameraHeight src)\<rparr>"

definition JumprunOrigin_empty :: JumprunOrigin where
  "JumprunOrigin_empty =
     \<lparr>JumprunOrigin_Latitude = [], JumprunOrigin_Longitude = [],
      JumprunOrigin_MagneticDeviation = 0, JumprunOrigin_CameraHeight = 0\<rparr>"

definition Merge_JumprunPath :: "JumprunPath \<Rightarrow> JumprunPath \<Rightarrow> JumprunPath" where
  "Merge_JumprunPath dst src =
     \<lparr>JumprunPath_Heading = merge_int32 (JumprunPath_Heading dst) (JumprunPath_Heading src),
      JumprunPath_ExitDistance =
        merge_int32 (JumprunPath_ExitDistance dst) (JumprunPath_ExitDistance src),
      JumprunPath_OffsetHeading =
        merge_int32 (JumprunPath_OffsetHeading dst) (JumprunPath_OffsetHeading src),
      JumprunPath_OffsetDistance =
        merge_int32 (JumprunPath_OffsetDistance dst) (JumprunPath_OffsetDistance src),
      JumprunPath_Turns = JumprunPath_Turns dst @ JumprunPath_Turns src\<rparr>"

definition JumprunPath_empty :: JumprunPath where
  "JumprunPath_empty =
     \<lparr>JumprunPath_Heading = 0, JumprunPath_ExitDistance = 0, JumprunPath_OffsetHeading = 0,
      JumprunPath_OffsetDistance = 0, JumprunPath_Turns = []\<rparr>"

definition Merge_Jumprun :: "Jumprun \<Rightarrow> Jumprun \<Rightarrow> Jumprun" where
  "Merge_Jumprun dst src =
     \<lparr>Jumprun_Origin =
        merge_message JumprunOrigin_empty Merge_JumprunOrigin
          (Jumprun_Origin dst) (Jumprun_Origin src),
      Jumprun_Path =
        merge_message JumprunPath_empty Merge_JumprunPath (Jumprun_Path dst) (Jumprun_Path src)\<rparr>"

definition Jumprun_empty :: Jumprun where
  "Jumprun_empty = \<lparr>Jumprun_Origin = None, Jumprun_Path = None\<rparr>"

definition Merge_WindsAloft :: "WindsAloft \<Rightarrow> WindsAloft \<Rightarrow> WindsAloft" where
  "Merge_WindsAloft dst src =
     \<lparr>WindsAloft_Samples = WindsAloft_Samples dst @ WindsAloft_Samples src\<rparr>"

definition WindsAloft_empty :: WindsAloft where
  "WindsAloft_empty = \<lparr>WindsAloft_Samples = []\<rparr>"

definition Merge_Loads :: "Loads \<Rightarrow> Loads \<Rightarrow> Loads" where
  "Merge_Loads dst src =
     \<lparr>Loads_ColumnCount = merge_int32 (Loads_ColumnCount dst) (Loads_ColumnCount src),
      Loads_Loads = Loads_Loads dst @ Loads_Loads src\<rparr>"

definition Loads_empty :: Loads where
  "Loads_empty = \<lparr>Loads_ColumnCount = 0, Loads_Loads = []\<rparr>"

definition Merge :: "ManifestUpdate \<Rightarrow> ManifestUpdate \<Rightarrow> ManifestUpdate" where
  "Merge dst src =
     \<lparr>Status = merge_message Status_empty Merge_Status (Status dst) (Status src),
      Options = merge_message Options_empty Merge_Options (Options dst) (Options src),
      Jumprun = merge_message Jumprun_empty Merge_Jumprun (Jumprun dst) (Jumprun src),
      WindsAloft =
        merge_message WindsAloft_empty Merge_WindsAloft (WindsAloft dst) (WindsAloft src),
      Loads = merge_message Loads_empty Merge_Loads (Loads dst) (Loads src)\<rparr>"

section \<open>pkg/server/grpc.go: the broadcast actor\<close>

text \<open>
  A Go channel is identified by a number. The state holds, for the channels the actor
  receives from, the values queued on them (oldest first), and for the channels it sends
  on, the values it has sent so far (oldest first); a send is recorded when it completes.
  An update travels as a pointer: \<open>lastUpdate_ptr\<close> is the pointer held by the variable
  \<^verbatim>\<open>lastUpdate\<close>, whose target \<^verbatim>\<open>proto.Merge\<close> changes in place, and \<open>update_ptr u\<close> is a
  pointer to an update that is not changed after it is sent.
\<close>

type_synonym chan = nat

record addClientRequest =
  addClientRequest_reply :: chan
  addClientRequest_updates :: chan

record removeClientRequest =
  removeClientRequest_reply :: chan
  removeClientRequest_id :: "64 word"

datatype message = lastUpdate_ptr | update_ptr ManifestUpdate

text \<open>
  The fields \<^verbatim>\<open>options\<close>, \<^verbatim>\<open>addClientChan\<close> and \<^verbatim>\<open>removeClientChan\<close> of
  \<^verbatim>\<open>manifestServiceServer\<close>; the variables \<^verbatim>\<open>c\<close> (here \<open>notifications\<close>),
  \<^verbatim>\<open>clientID\<close>, \<^verbatim>\<open>clients\<close> and \<^verbatim>\<open>lastUpdate\<close> of \<^verbatim>\<open>processUpdates\<close>; what was sent
  on each \<^verbatim>\<open>updates\<close> channel and on each \<^verbatim>\<open>reply\<close> channel; and \<open>constructed\<close>, the
  arguments of the calls of \<^verbatim>\<open>constructUpdate\<close> made by the loop so far (bookkeeping of
  the model). \<open>clients\<close> is the Go map as an association list with distinct keys.
\<close>

record manifestServiceServer =
  options :: settings_Options
  addClientChan :: "addClientRequest list"
  removeClientChan :: "removeClientRequest list"
  notifications :: "DataSource list"
  clientID :: "64 word"
  clients :: "(64 word \<times> chan) list"
  lastUpdate :: ManifestUpdate
  updates_sent :: "chan \<Rightarrow> message list"
  addClient_replies :: "chan \<Rightarrow> 64 word list"
  removeClient_replies :: "chan \<Rightarrow> nat"
  constructed :: "DataSource list"

text \<open>\<^verbatim>\<open>for _, client := range clients { client <- u }\<close>\<close>

definition broadcast ::
  "ManifestUpdate \<Rightarrow> (64 word \<times> chan) list \<Rightarrow> (chan \<Rightarrow> message list) \<Rightarrow> chan \<Rightarrow> message list" where
  "broadcast u cl sent =
     fold (\<lambda>(i, client) sent. sent(client := sent client @ [update_ptr u])) cl sent"

text \<open>
  The prologue of \<^verbatim>\<open>processUpdates\<close>: a new listener channel, no clients, and the
  baseline constructed for the sources that are enabled.
\<close>

definition baseline_source :: "Controller \<Rightarrow> DataSource" where
  "baseline_source app =
     (let source = BurbleDataSource OR OptionsDataSource;
          source = (if jumprun app \<noteq> None then source OR JumprunDataSource else source);
          source = (if metarSource app \<noteq> None then source OR METARDataSource else source);
          source = (if windsAloftSource app \<noteq> None then source OR WindsAloftDataSource else source)
      in source)"

definition processUpdates_begin ::
  "Controller \<Rightarrow> manifestServiceServer \<Rightarrow> manifestServiceServer \<times> loop_status" where
  "processUpdates_begin app st =
     (let st = st\<lparr>notifications := [], clientID := 0, clients := []\<rparr> in
        case constructUpdate app (options st) (baseline_source app) of
          Inl e \<Rightarrow> (st, Crashed)
        | Inr (u, options') \<Rightarrow> (st\<lparr>options := options', lastUpdate := u\<rparr>, Running))"

text \<open>
  One pass of the loop of \<^verbatim>\<open>processUpdates\<close>, for the case the \<^verbatim>\<open>select\<close> takes. A
  receive case is taken only when its channel holds a value: where it holds none the
  state is returned unchanged. \<open>app\<close> is the controller as it is during the pass.
\<close>

datatype select_case = ctx_Done | recv_addClientChan | recv_removeClientChan | recv_c

definition add_client :: "addClientRequest \<Rightarrow> manifestServiceServer \<Rightarrow> manifestServiceServer" where
  "add_client req st =
     (let clientID' = clientID st + 1 in
        st\<lparr>clientID := clientID',
           clients := AList.update clientID' (addClientRequest_updates req) (clients st),
           addClient_replies := (addClient_replies st)
             (addClientRequest_reply req :=
                addClient_replies st (addClientRequest_reply req) @ [clientID']),
           updates_sent := (updates_sent st)
             (addClientRequest_updates req :=
                updates_sent st (addClientRequest_updates req) @ [lastUpdate_ptr])\<rparr>)"

definition remove_client :: "removeClientRequest \<Rightarrow> manifestServiceServer \<Rightarrow> manifestServiceServer" where
  "remove_client req st =
     st\<lparr>clients := AList.delete (removeClientRequest_id req) (clients st),
        removeClient_replies := (removeClient_replies st)
          (removeClientRequest_reply req :=
             Suc (removeClient_replies st (removeClientRequest_reply req)))\<rparr>"

definition notified ::
  "Controller \<Rightarrow> DataSource \<Rightarrow> DataSource list \<Rightarrow> manifestServiceServer \<Rightarrow>
   manifestServiceServer \<times> loop_status" where
  "notified app source pending st =
     (let source = drain source pending;
          st = st\<lparr>notifications := [], constructed := constructed st @ [source]\<rparr>
      in case constructUpdate app (options st) source of
           Inl e \<Rightarrow> (st, Crashed)
         | Inr (u, options') \<Rightarrow>
             (let st = st\<lparr>options := options'\<rparr>;
                  (u, changed) = diff u (lastUpdate st)
              in if changed then
                   (st\<lparr>updates_sent := broadcast u (clients st) (updates_sent st),
                       lastUpdate := Merge (lastUpdate st) u\<rparr>, Running)
                 else (st, Running)))"

definition processUpdates_select ::
  "Controller \<Rightarrow> select_case \<Rightarrow> manifestServiceServer \<Rightarrow> manifestServiceServer \<times> loop_status" where
  "processUpdates_select app sc st =
     (case sc of
        ctx_Done \<Rightarrow> (st, Returned)
      | recv_addClientChan \<Rightarrow>
          (case addClientChan st of
             [] \<Rightarrow> (st, Running)
           | req # queued \<Rightarrow> (add_client req (st\<lparr>addClientChan := queued\<rparr>), Running))
      | recv_removeClientChan \<Rightarrow>
          (case removeClientChan st of
             [] \<Rightarrow> (st, Running)
           | req # queued \<Rightarrow> (remove_client req (st\<lparr>removeClientChan := queued\<rparr>), Running))
      | recv_c \<Rightarrow>
          (case notifications st of
             [] \<Rightarrow> (st, Running)
           | source # pending \<Rightarrow> notified app source pending st))"

text \<open>
  An execution: passes of the actor's loop interleaved with producers sending a mask on
  the listener channel (\<^verbatim>\<open>WakeListeners\<close>). No statement of the sources sends on
  \<^verbatim>\<open>addClientChan\<close> or \<^verbatim>\<open>removeClientChan\<close>, so no event does.
\<close>

datatype event = Select Controller select_case | WakeListeners DataSource

fun processUpdates_loop ::
  "event list \<Rightarrow> manifestServiceServer \<Rightarrow> manifestServiceServer \<times> loop_status" where
  "processUpdates_loop [] st = (st, Running)"
| "processUpdates_loop (Select app sc # es) st =
     (case processUpdates_select app sc st of
        (st', Running) \<Rightarrow> processUpdates_loop es st'
      | (st', Returned) \<Rightarrow> (st', Returned)
      | (st', Crashed) \<Rightarrow> (st', Crashed))"
| "processUpdates_loop (WakeListeners source # es) st =
     processUpdates_loop es (st\<lparr>notifications := notifications st @ [source]\<rparr>)"

text \<open>
  \<^verbatim>\<open>newManifestServiceServer\<close> followed by \<^verbatim>\<open>Start\<close>: empty admission channels, then
  the prologue. \<open>options\<close> is the zero value.
\<close>

definition newManifestServiceServer :: manifestServiceServer where
  "newManifestServiceServer =
     \<lparr>options = \<lparr>settings_DisplayNicknames = False, settings_DisplayWeather = False,
                  settings_DisplayWinds = False, settings_Message = []\<rparr>,
      addClientChan = [], removeClientChan = [], notifications = [], clientID = 0,
      clients = [], lastUpdate = ManifestUpdate_empty,
      updates_sent = (\<lambda>ch. []), addClient_replies = (\<lambda>ch. []),
      removeClient_replies = (\<lambda>ch. 0), constructed = []\<rparr>"

text \<open>
  \<^verbatim>\<open>addClient(c)\<close> and \<^verbatim>\<open>removeClient(id)\<close>, on the caller's side. Each builds its
  request around the channel \<open>reply\<close> that \<^verbatim>\<open>make\<close> returns and then receives from that
  channel; the source has no statement between the two. \<open>addClient\<close> and \<open>removeClient\<close>
  give the state and the request when the receive starts; \<open>addClient_returns\<close> and
  \<open>removeClient_returns\<close> say whether the receive completes in a state, and with what.
\<close>

definition addClient :: "chan \<Rightarrow> chan \<Rightarrow> manifestServiceServer \<Rightarrow> manifestServiceServer \<times> addClientRequest" where
  "addClient reply ch st =
     (st, \<lparr>addClientRequest_reply = reply, addClientRequest_updates = ch\<rparr>)"

definition addClient_returns :: "addClientRequest \<Rightarrow> manifestServiceServer \<Rightarrow> 64 word option" where
  "addClient_returns request st =
     (case addClient_replies st (addClientRequest_reply request) of
        [] \<Rightarrow> None
      | response # later \<Rightarrow> Some response)"

definition removeClient ::
  "chan \<Rightarrow> 64 word \<Rightarrow> manifestServiceServer \<Rightarrow> manifestServiceServer \<times> removeClientRequest" where
  "removeClient reply i st =
     (st, \<lparr>removeClientRequest_reply = reply, removeClientRequest_id = i\<rparr>)"

definition removeClient_returns :: "removeClientRequest \<Rightarrow> manifestServiceServer \<Rightarrow> bool" where
  "removeClient_returns request st =
     (0 < removeClient_replies st (removeClientRequest_reply request))"

text \<open>
  Concrete passes for evaluating the loop: a controller for which no feed supplies
  coordinates (only the weather source is enabled and the settings hold no winds
  coordinates), the same controller once the settings hold them, and passes on day \<open>d\<close> of
  June 2021 whose sunrise is at instant \<open>1000 d + 100\<close> and sunset at \<open>1000 d + 200\<close>.
  \<open>ParseFloat_example\<close> parses the two coordinate strings used.
\<close>

definition ParseFloat_example :: "string \<Rightarrow> int option" where
  "ParseFloat_example s =
     (if s = ''42'' then Some 42 else if s = ''-72'' then Some (- 72) else None)"

definition controller_unlocated :: Controller where
  "controller_unlocated =
     \<lparr>burbleSource = \<lparr>burble_ColumnCount = 0, burble_Loads = []\<rparr>,
      jumprun = None,
      metarSource = Some \<lparr>metar_WindConditions = [], metar_SkyCover = [],
                           metar_WeatherConditions = [], metar_TemperatureString = []\<rparr>,
      windsAloftSource = None,
      settings = \<lparr>settings_Options =
                    \<lparr>settings_DisplayNicknames = False, settings_DisplayWeather = False,
                     settings_DisplayWinds = False, settings_Message = []\<rparr>,
                  settings_WindsLatitude = [], settings_WindsLongitude = []\<rparr>,
      SeparationStrings = ([], [])\<rparr>"

definition controller_located :: Controller where
  "controller_located =
     controller_unlocated
       \<lparr>settings := (settings controller_unlocated)
          \<lparr>settings_WindsLatitude := ''42'', settings_WindsLongitude := ''-72''\<rparr>\<rparr>"

definition on_day :: "int \<Rightarrow> int \<Rightarrow> Time" where
  "on_day d w = \<lparr>wall = w, Year = 2021, Month = 6, Day = d\<rparr>"

definition pass :: "Controller \<Rightarrow> int \<Rightarrow> int \<Rightarrow> int tick" where
  "pass c d w =
     \<lparr>tick_app = c,
      tick_GetSunriseSunset = (\<lambda>latitude longitude. Inr (on_day d (1000 * d + 100), on_day d (1000 * d + 200))),
      tick_now = on_day d (1000 * d + w),
      tick_done = False\<rparr>"

definition two_days :: "int tick list" where
  "two_days = [pass controller_located 1 50, pass controller_located 1 150,
               pass controller_located 1 160, pass controller_located 1 250,
               pass controller_located 2 150]"

text \<open>
  Three passes after sunrise and before sunset: on day 1, on day 2, and, the wall clock
  having been set back by a day in between, on day 1 again.
\<close>

definition clock_set_back :: "int tick list" where
  "clock_set_back = [pass controller_located 1 150, pass controller_located 2 150,
                     pass controller_located 1 150]"

text \<open>
  For stating the properties of the loop: the dates of the sunrise (sunset) instants of
  the passes whose \<^verbatim>\<open>SunriseAndSunsetTimes\<close> succeeds, in order, and the dates for which
  \<^verbatim>\<open>c.sunrise()\<close> (\<^verbatim>\<open>c.sunset()\<close>) ran.
\<close>

definition sunrise_days :: "(string \<Rightarrow> 'f option) \<Rightarrow> 'f tick list \<Rightarrow> int list list" where
  "sunrise_days ParseFloat ts =
     concat (map (\<lambda>t. case SunriseAndSunsetTimes ParseFloat t of
                         Inr (sunrise_time, sunset_time) \<Rightarrow> [marker sunrise_time]
                       | Inl e \<Rightarrow> []) ts)"

definition sunset_days :: "(string \<Rightarrow> 'f option) \<Rightarrow> 'f tick list \<Rightarrow> int list list" where
  "sunset_days ParseFloat ts =
     concat (map (\<lambda>t. case SunriseAndSunsetTimes ParseFloat t of
                         Inr (sunrise_time, sunset_time) \<Rightarrow> [marker sunset_time]
                       | Inl e \<Rightarrow> []) ts)"

fun sunrises :: "transition list \<Rightarrow> int list list" where
  "sunrises [] = []"
| "sunrises (sunrise d # xs) = d # sunrises xs"
| "sunrises (sunset d # xs) = sunrises xs"

fun sunsets :: "transition list \<Rightarrow> int list list" where
  "sunsets [] = []"
| "sunsets (sunset d # xs) = d # sunsets xs"
| "sunsets (sunrise d # xs) = sunsets xs"

text \<open>
  The categories an update holds, and the invariant that \<open>lastUpdate\<close> holds every
  category of every update broadcast so far.
\<close>

datatype category = Status_category | Options_category | Jumprun_category
  | WindsAloft_category | Loads_category

definition categories :: "ManifestUpdate \<Rightarrow> category set" where
  "categories u =
     (if Status u \<noteq> None then {Status_category} else {}) \<union>
     (if Options u \<noteq> None then {Options_category} else {}) \<union>
     (if Jumprun u \<noteq> None then {Jumprun_category} else {}) \<union>
     (if WindsAloft u \<noteq> None then {WindsAloft_category} else {}) \<union>
     (if Loads u \<noteq> None then {Loads_category} else {})"

definition broadcast_covered :: "manifestServiceServer \<Rightarrow> bool" where
  "broadcast_covered st =
     (\<forall>ch u. update_ptr u \<in> set (updates_sent st ch) \<longrightarrow>
        categories u \<subseteq> categories (lastUpdate st))"

text \<open>
  Concrete states for evaluating the actor: a controller with the jump-run, weather and
  wind-aloft sources enabled, whose wind-aloft source holds one sample of speed \<open>v\<close>; the
  server after the prologue, one admission (reply channel 1, updates channel 2, identifier
  1) and one wind-aloft notification; the same with a burst of three notifications queued;
  and the same with a second admission request queued.
\<close>

definition jumprun_example :: jumprun_Jumprun where
  "jumprun_example =
     \<lparr>jumprun_TimeStamp = 0, jumprun_Latitude = ''42'', jumprun_Longitude = ''-72'',
      jumprun_MagneticDeclination = 0, jumprun_CameraHeight = 0, jumprun_IsSet = False,
      jumprun_Heading = 0, jumprun_ExitDistance = 0, jumprun_OffsetHeading = 0,
      jumprun_OffsetDistance = 0, jumprun_HookTurns = []\<rparr>"

definition sample_example :: "64 word \<Rightarrow> winds_Sample" where
  "sample_example v =
     \<lparr>sample_Altitude = 13000, sample_Heading = 270, sample_Speed = v,
      sample_Temperature = 0, sample_LightAndVariable = False\<rparr>"

definition controller_winds :: "64 word \<Rightarrow> Controller" where
  "controller_winds v =
     controller_located\<lparr>jumprun := Some jumprun_example,
                         windsAloftSource := Some [sample_example v]\<rparr>"

definition WindsAloft_example :: "32 word \<Rightarrow> WindsAloftSample" where
  "WindsAloft_example v =
     \<lparr>WindsAloftSample_Altitude = 13000, WindsAloftSample_Heading = 270,
      WindsAloftSample_Speed = v, WindsAloftSample_Temperature = 0,
      WindsAloftSample_Variable = False\<rparr>"

definition server_example :: manifestServiceServer where
  "server_example =
     fst (processUpdates_loop
       [Select (controller_winds 10) recv_addClientChan, WakeListeners WindsAloftDataSource]
       ((fst (processUpdates_begin (controller_winds 10) newManifestServiceServer))
          \<lparr>addClientChan := [\<lparr>addClientRequest_reply = 1, addClientRequest_updates = 2\<rparr>]\<rparr>))"

definition server_burst :: manifestServiceServer where
  "server_burst =
     server_example\<lparr>notifications := [JumprunDataSource, METARDataSource, JumprunDataSource]\<rparr>"

definition server_admitting :: manifestServiceServer where
  "server_admitting =
     server_example\<lparr>addClientChan := [\<lparr>addClientRequest_reply = 3, addClientRequest_updates = 4\<rparr>]\<rparr>"

section \<open>pkg/metar/controller.go: CardinalDirection\<close>











section \<open>Theorems\<close>

lemmas DataSource_defs =
  BurbleDataSource_def JumprunDataSource_def METARDataSource_def
  WindsAloftDataSource_def SettingsDataSource_def OptionsDataSource_def

lemma DataSource_values:
  "BurbleDataSource = 0" "JumprunDataSource = 2" "METARDataSource = 4"
  "WindsAloftDataSource = 6" "SettingsDataSource = 8" "OptionsDataSource = 8"
  by (simp_all add: DataSource_defs)

text \<open>
  C1 (fails on the code). The claim wants five nonzero, pairwise disjoint single bits.
  The constants are \<open>n << 1\<close> instead of \<open>1 << n\<close>: the loads flag is zero, the
  wind-aloft flag is the union of the jump-run and weather flags, and testing the
  wind-aloft flag against a mask that holds only the weather flag succeeds.
\<close>

theorem DataSource_flags_not_disjoint_bits:
  "BurbleDataSource = 0
   \<and> WindsAloftDataSource = JumprunDataSource OR METARDataSource
   \<and> WindsAloftDataSource AND JumprunDataSource \<noteq> 0
   \<and> WindsAloftDataSource AND METARDataSource \<noteq> 0
   \<and> METARDataSource AND WindsAloftDataSource \<noteq> 0
   \<and> (JumprunDataSource OR METARDataSource) AND BurbleDataSource = 0
   \<and> drain METARDataSource [] AND WindsAloftDataSource \<noteq> 0"
  by (simp add: DataSource_values)

text \<open>
  C9 (fails on the code, by the defect of C1). A notification that holds only the weather
  flag re-renders the wind-aloft endpoints, one that holds only the jump-run flag
  re-renders them too, and one that holds only the wind-aloft flag re-renders the
  jump-run endpoints.
\<close>

theorem legacy_rerenders_on_other_categories:
  "legacy_source_case [METARDataSource] =
     Some ([updateWindsStaticData, updateManifestStaticData], [])
   \<and> legacy_source_case [JumprunDataSource] =
     Some ([updateWindsStaticData, updateJumprunStaticData, updateManifestStaticData], [])
   \<and> legacy_source_case [WindsAloftDataSource] =
     Some ([updateWindsStaticData, updateJumprunStaticData, updateManifestStaticData], [])"
  by (simp add: legacy_source_case_def legacy_calls_def DataSource_values)


subsection \<open>The day-boundary scheduler\<close>

lemma sunrises_append: "sunrises (xs @ ys) = sunrises xs @ sunrises ys"
  by (induction xs rule: sunrises.induct) simp_all

lemma sunsets_append: "sunsets (xs @ ys) = sunsets xs @ sunsets ys"
  by (induction xs rule: sunsets.induct) simp_all

lemma at_sunset_frame:
  "lastSunrise (at_sunset now t s) = lastSunrise s"
  "sunrises (ran (at_sunset now t s)) = sunrises (ran s)"
  by (simp_all add: at_sunset_def Let_def sunrises_append)

lemma at_sunrise_frame:
  "lastSunset (at_sunrise now t s) = lastSunset s"
  "sunsets (ran (at_sunrise now t s)) = sunsets (ran s)"
  by (simp_all add: at_sunrise_def Let_def sunsets_append)

lemma at_sunrise_ran:
  "sunrises (ran (at_sunrise now t s)) =
     sunrises (ran s) @ (if wall t \<le> wall now \<and> lastSunrise s \<noteq> marker t then [marker t] else [])"
  by (auto simp add: at_sunrise_def Let_def sunrises_append Equal_def After_def)

lemma at_sunrise_last:
  "lastSunrise (at_sunrise now t s) =
     (if wall t \<le> wall now then marker t else lastSunrise s)"
  by (auto simp add: at_sunrise_def Let_def Equal_def After_def)

lemma at_sunset_ran:
  "sunsets (ran (at_sunset now t s)) =
     sunsets (ran s) @ (if wall t \<le> wall now \<and> lastSunset s \<noteq> marker t then [marker t] else [])"
  by (auto simp add: at_sunset_def Let_def sunsets_append Equal_def After_def)

lemma at_sunset_last:
  "lastSunset (at_sunset now t s) =
     (if wall t \<le> wall now then marker t else lastSunset s)"
  by (auto simp add: at_sunset_def Let_def Equal_def After_def)

lemma loop_sunrises_after:
  "sorted (sunrise_days PF ts) \<Longrightarrow> \<forall>d \<in> set (sunrise_days PF ts). lastSunrise s \<le> d \<Longrightarrow>
   \<exists>new. sunrises (ran (fst (runAtSunriseSunset_loop PF ts s))) = sunrises (ran s) @ new
        \<and> sorted_wrt (<) new \<and> (\<forall>d \<in> set new. lastSunrise s < d)"
proof (induction ts arbitrary: s)
  case Nil
  then show ?case by simp
next
  case (Cons t ts)
  show ?case
  proof (cases "SunriseAndSunsetTimes PF t")
    case (Inl e)
    then show ?thesis by (cases e) simp_all
  next
    case (Inr p)
    obtain sr ss where p: "p = (sr, ss)" by (cases p)
    let ?s' = "at_sunrise (tick_now t) sr (at_sunset (tick_now t) ss s)"
    from Cons.prems Inr p have srt: "sorted (marker sr # sunrise_days PF ts)"
      and le: "lastSunrise s \<le> marker sr" "\<forall>d \<in> set (sunrise_days PF ts). lastSunrise s \<le> d"
      by (simp_all add: sunrise_days_def)
    have last': "lastSunrise ?s' = (if wall sr \<le> wall (tick_now t) then marker sr else lastSunrise s)"
      by (simp add: at_sunrise_last at_sunset_frame)
    have ran': "sunrises (ran ?s') = sunrises (ran s) @
        (if wall sr \<le> wall (tick_now t) \<and> lastSunrise s \<noteq> marker sr then [marker sr] else [])"
      by (simp add: at_sunrise_ran at_sunset_frame)
    have pre: "\<forall>d \<in> set (sunrise_days PF ts). lastSunrise ?s' \<le> d"
      using srt le by (auto simp add: last')
    from srt have "sorted (sunrise_days PF ts)" by simp
    from Cons.IH [OF this pre] obtain new where
      new: "sunrises (ran (fst (runAtSunriseSunset_loop PF ts ?s'))) = sunrises (ran ?s') @ new"
        "sorted_wrt (<) new" "\<forall>d \<in> set new. lastSunrise ?s' < d"
      by blast
    show ?thesis
    proof (cases "tick_done t")
      case True
      then show ?thesis using Inr p ran' le by (auto simp add: Let_def)
    next
      case False
      then have eq: "runAtSunriseSunset_loop PF (t # ts) s = runAtSunriseSunset_loop PF ts ?s'"
        using Inr p by (simp add: Let_def)
      show ?thesis
        unfolding eq using new ran' last' le by (auto simp add: Let_def split: if_splits)
    qed
  qed
qed

lemma loop_sunrises_sorted:
  "sorted (sunrise_days PF ts) \<Longrightarrow>
   \<exists>new. sunrises (ran (fst (runAtSunriseSunset_loop PF ts s))) = sunrises (ran s) @ new
        \<and> sorted_wrt (<) new"
proof (induction ts arbitrary: s)
  case Nil
  then show ?case by simp
next
  case (Cons t ts)
  show ?case
  proof (cases "SunriseAndSunsetTimes PF t")
    case (Inl e)
    then show ?thesis by (cases e) simp_all
  next
    case (Inr p)
    obtain sr ss where p: "p = (sr, ss)" by (cases p)
    let ?s' = "at_sunrise (tick_now t) sr (at_sunset (tick_now t) ss s)"
    from Cons.prems Inr p have srt: "sorted (marker sr # sunrise_days PF ts)"
      by (simp_all add: sunrise_days_def)
    then have srt': "sorted (sunrise_days PF ts)" by simp
    have last': "lastSunrise ?s' = (if wall sr \<le> wall (tick_now t) then marker sr else lastSunrise s)"
      by (simp add: at_sunrise_last at_sunset_frame)
    have ran': "sunrises (ran ?s') = sunrises (ran s) @
        (if wall sr \<le> wall (tick_now t) \<and> lastSunrise s \<noteq> marker sr then [marker sr] else [])"
      by (simp add: at_sunrise_ran at_sunset_frame)
    show ?thesis
    proof (cases "tick_done t")
      case True
      then show ?thesis using Inr p ran' by (auto simp add: Let_def)
    next
      case False
      then have eq: "runAtSunriseSunset_loop PF (t # ts) s = runAtSunriseSunset_loop PF ts ?s'"
        using Inr p by (simp add: Let_def)
      show ?thesis
      proof (cases "wall sr \<le> wall (tick_now t)")
        case True
        then have "\<forall>d \<in> set (sunrise_days PF ts). lastSunrise ?s' \<le> d"
          using srt by (simp add: last')
        from loop_sunrises_after [OF srt' this] obtain new where
          "sunrises (ran (fst (runAtSunriseSunset_loop PF ts ?s'))) = sunrises (ran ?s') @ new"
          "sorted_wrt (<) new" "\<forall>d \<in> set new. lastSunrise ?s' < d"
          by blast
        then show ?thesis unfolding eq using ran' last' True by auto
      next
        case False
        from Cons.IH [OF srt', of ?s'] show ?thesis unfolding eq using ran' False by auto
      qed
    qed
  qed
qed

lemma loop_sunsets_after:
  "sorted (sunset_days PF ts) \<Longrightarrow> \<forall>d \<in> set (sunset_days PF ts). lastSunset s \<le> d \<Longrightarrow>
   \<exists>new. sunsets (ran (fst (runAtSunriseSunset_loop PF ts s))) = sunsets (ran s) @ new
        \<and> sorted_wrt (<) new \<and> (\<forall>d \<in> set new. lastSunset s < d)"
proof (induction ts arbitrary: s)
  case Nil
  then show ?case by simp
next
  case (Cons t ts)
  show ?case
  proof (cases "SunriseAndSunsetTimes PF t")
    case (Inl e)
    then show ?thesis by (cases e) simp_all
  next
    case (Inr p)
    obtain sr ss where p: "p = (sr, ss)" by (cases p)
    let ?s' = "at_sunrise (tick_now t) sr (at_sunset (tick_now t) ss s)"
    from Cons.prems Inr p have srt: "sorted (marker ss # sunset_days PF ts)"
      and le: "lastSunset s \<le> marker ss" "\<forall>d \<in> set (sunset_days PF ts). lastSunset s \<le> d"
      by (simp_all add: sunset_days_def)
    have last': "lastSunset ?s' = (if wall ss \<le> wall (tick_now t) then marker ss else lastSunset s)"
      by (simp add: at_sunrise_frame at_sunset_last)
    have ran': "sunsets (ran ?s') = sunsets (ran s) @
        (if wall ss \<le> wall (tick_now t) \<and> lastSunset s \<noteq> marker ss then [marker ss] else [])"
      by (simp add: at_sunrise_frame at_sunset_ran)
    have pre: "\<forall>d \<in> set (sunset_days PF ts). lastSunset ?s' \<le> d"
      using srt le by (auto simp add: last')
    from srt have "sorted (sunset_days PF ts)" by simp
    from Cons.IH [OF this pre] obtain new where
      new: "sunsets (ran (fst (runAtSunriseSunset_loop PF ts ?s'))) = sunsets (ran ?s') @ new"
        "sorted_wrt (<) new" "\<forall>d \<in> set new. lastSunset ?s' < d"
      by blast
    show ?thesis
    proof (cases "tick_done t")
      case True
      then show ?thesis using Inr p ran' le by (auto simp add: Let_def)
    next
      case False
      then have eq: "runAtSunriseSunset_loop PF (t # ts) s = runAtSunriseSunset_loop PF ts ?s'"
        using Inr p by (simp add: Let_def)
      show ?thesis
        unfolding eq using new ran' last' le by (auto simp add: Let_def split: if_splits)
    qed
  qed
qed

lemma loop_sunsets_sorted:
  "sorted (sunset_days PF ts) \<Longrightarrow>
   \<exists>new. sunsets (ran (fst (runAtSunriseSunset_loop PF ts s))) = sunsets (ran s) @ new
        \<and> sorted_wrt (<) new"
proof (induction ts arbitrary: s)
  case Nil
  then show ?case by simp
next
  case (Cons t ts)
  show ?case
  proof (cases "SunriseAndSunsetTimes PF t")
    case (Inl e)
    then show ?thesis by (cases e) simp_all
  next
    case (Inr p)
    obtain sr ss where p: "p = (sr, ss)" by (cases p)
    let ?s' = "at_sunrise (tick_now t) sr (at_sunset (tick_now t) ss s)"
    from Cons.prems Inr p have srt: "sorted (marker ss # sunset_days PF ts)"
      by (simp_all add: sunset_days_def)
    then have srt': "sorted (sunset_days PF ts)" by simp
    have last': "lastSunset ?s' = (if wall ss \<le> wall (tick_now t) then marker ss else lastSunset s)"
      by (simp add: at_sunrise_frame at_sunset_last)
    have ran': "sunsets (ran ?s') = sunsets (ran s) @
        (if wall ss \<le> wall (tick_now t) \<and> lastSunset s \<noteq> marker ss then [marker ss] else [])"
      by (simp add: at_sunrise_frame at_sunset_ran)
    show ?thesis
    proof (cases "tick_done t")
      case True
      then show ?thesis using Inr p ran' by (auto simp add: Let_def)
    next
      case False
      then have eq: "runAtSunriseSunset_loop PF (t # ts) s = runAtSunriseSunset_loop PF ts ?s'"
        using Inr p by (simp add: Let_def)
      show ?thesis
      proof (cases "wall ss \<le> wall (tick_now t)")
        case True
        then have "\<forall>d \<in> set (sunset_days PF ts). lastSunset ?s' \<le> d"
          using srt by (simp add: last')
        from loop_sunsets_after [OF srt' this] obtain new where
          "sunsets (ran (fst (runAtSunriseSunset_loop PF ts ?s'))) = sunsets (ran ?s') @ new"
          "sorted_wrt (<) new" "\<forall>d \<in> set new. lastSunset ?s' < d"
          by blast
        then show ?thesis unfolding eq using ran' last' True by auto
      next
        case False
        from Cons.IH [OF srt', of ?s'] show ?thesis unfolding eq using ran' False by auto
      qed
    qed
  qed
qed


lemma count_list_sunrise: "count_list xs (sunrise d) = count_list (sunrises xs) d"
  by (induction xs rule: sunrises.induct) simp_all

lemma count_list_sunset: "count_list xs (sunset d) = count_list (sunsets xs) d"
  by (induction xs rule: sunsets.induct) simp_all

lemma count_list_distinct: "distinct xs \<Longrightarrow> count_list xs x \<le> 1"
  by (induction xs) auto

lemma count_list_strict_sorted:
  fixes xs :: "'a::linorder list"
  shows "sorted_wrt (<) xs \<Longrightarrow> count_list xs x \<le> 1"
  using count_list_distinct [of xs x] by (simp add: strict_sorted_iff)

lemma pass_sel:
  "tick_now (pass c d w) = on_day d (1000 * d + w)" "tick_done (pass c d w) = False"
  by (simp_all add: pass_def)

lemma SunriseAndSunsetTimes_located:
  "SunriseAndSunsetTimes ParseFloat_example (pass controller_located d w) =
     Inr (on_day d (1000 * d + 100), on_day d (1000 * d + 200))"
  by (simp add: SunriseAndSunsetTimes_def Coordinates_def Coordinates_winds_def
      Coordinates_metar_def metar_Location_def pass_def controller_located_def
      controller_unlocated_def ParseFloat_example_def)

lemma SunriseAndSunsetTimes_unlocated:
  "SunriseAndSunsetTimes ParseFloat_example (pass controller_unlocated d w) =
     Inl (Error ''location is unknown'')"
  by (simp add: SunriseAndSunsetTimes_def Coordinates_def Coordinates_winds_def
      Coordinates_metar_def metar_Location_def pass_def
      controller_unlocated_def ParseFloat_example_def)

lemma at_sunrise_eval:
  "at_sunrise now t \<lparr>lastSunrise = a, lastSunset = b, ran = r\<rparr> =
     (if wall t \<le> wall now \<and> a \<noteq> marker t
      then \<lparr>lastSunrise = marker t, lastSunset = b, ran = r @ [sunrise (marker t)]\<rparr>
      else \<lparr>lastSunrise = a, lastSunset = b, ran = r\<rparr>)"
  by (auto simp add: at_sunrise_def Let_def Equal_def After_def)

lemma at_sunset_eval:
  "at_sunset now t \<lparr>lastSunrise = a, lastSunset = b, ran = r\<rparr> =
     (if wall t \<le> wall now \<and> b \<noteq> marker t
      then \<lparr>lastSunrise = a, lastSunset = marker t, ran = r @ [sunset (marker t)]\<rparr>
      else \<lparr>lastSunrise = a, lastSunset = b, ran = r\<rparr>)"
  by (auto simp add: at_sunset_def Let_def Equal_def After_def)

lemma marker_on_day: "marker (on_day d w) = [2021, 6, d]" "wall (on_day d w) = w"
  by (simp_all add: marker_def Date_def on_day_def)

lemma two_days_run:
  "runAtSunriseSunset ParseFloat_example two_days =
     (\<lparr>lastSunrise = [2021, 6, 2], lastSunset = [2021, 6, 1],
       ran = [sunrise [2021, 6, 1], sunset [2021, 6, 1], sunrise [2021, 6, 2]]\<rparr>, Running)"
  by (simp add: runAtSunriseSunset_def two_days_def SunriseAndSunsetTimes_located
      at_sunrise_eval at_sunset_eval marker_on_day scheduler_init_def pass_sel)

lemma two_days_sorted:
  "sorted (sunrise_days ParseFloat_example two_days)" "sorted (sunset_days ParseFloat_example two_days)"
  by (simp_all add: sunrise_days_def sunset_days_def two_days_def SunriseAndSunsetTimes_located
      marker_def Date_def on_day_def)

text \<open>
  C7 (corrected). As stated, for every execution, the claim fails: the loop takes the
  date and the current time from the wall clock, and when the clock is set back across a
  day boundary the marker differs from the earlier date again (\<open>clock_set_back\<close> below).
  What holds: in every run of the scheduler loop in which the calendar date of the
  computed sunrise (sunset) instant never goes back from one pass to a later one,
  \<^verbatim>\<open>c.sunrise()\<close> runs at most once for each date and \<^verbatim>\<open>c.sunset()\<close> runs at most once
  for each date, whatever the number of passes. In one pass a transition runs exactly
  when the current time has reached the event's instant and the stored marker differs
  from the event's date, and the marker then holds that date.
\<close>

theorem sunrise_sunset_at_most_once_per_day:
  assumes "sorted (sunrise_days ParseFloat ts)" and "sorted (sunset_days ParseFloat ts)"
  shows "count_list (ran (fst (runAtSunriseSunset ParseFloat ts))) (sunrise d) \<le> 1
       \<and> count_list (ran (fst (runAtSunriseSunset ParseFloat ts))) (sunset d) \<le> 1
       \<and> ran (at_sunrise now t s) =
           ran s @ (if wall t \<le> wall now \<and> lastSunrise s \<noteq> marker t then [sunrise (marker t)] else [])
       \<and> lastSunrise (at_sunrise now t s) = (if wall t \<le> wall now then marker t else lastSunrise s)
       \<and> ran (at_sunset now t s) =
           ran s @ (if wall t \<le> wall now \<and> lastSunset s \<noteq> marker t then [sunset (marker t)] else [])
       \<and> lastSunset (at_sunset now t s) = (if wall t \<le> wall now then marker t else lastSunset s)"
proof -
  from loop_sunrises_sorted [OF assms(1), of scheduler_init] obtain rs where
    "sunrises (ran (fst (runAtSunriseSunset ParseFloat ts))) = rs" "sorted_wrt (<) rs"
    by (auto simp add: runAtSunriseSunset_def scheduler_init_def)
  then have 1: "count_list (ran (fst (runAtSunriseSunset ParseFloat ts))) (sunrise d) \<le> 1"
    using count_list_strict_sorted [of rs d] by (simp add: count_list_sunrise)
  from loop_sunsets_sorted [OF assms(2), of scheduler_init] obtain ss where
    "sunsets (ran (fst (runAtSunriseSunset ParseFloat ts))) = ss" "sorted_wrt (<) ss"
    by (auto simp add: runAtSunriseSunset_def scheduler_init_def)
  then have 2: "count_list (ran (fst (runAtSunriseSunset ParseFloat ts))) (sunset d) \<le> 1"
    using count_list_strict_sorted [of ss d] by (simp add: count_list_sunset)
  have 3: "ran (at_sunrise now t s) =
           ran s @ (if wall t \<le> wall now \<and> lastSunrise s \<noteq> marker t then [sunrise (marker t)] else [])"
    by (auto simp add: at_sunrise_def Let_def Equal_def After_def)
  have 4: "ran (at_sunset now t s) =
           ran s @ (if wall t \<le> wall now \<and> lastSunset s \<noteq> marker t then [sunset (marker t)] else [])"
    by (auto simp add: at_sunset_def Let_def Equal_def After_def)
  from 1 2 3 4 show ?thesis by (simp add: at_sunrise_last at_sunset_last)
qed

theorem sunrise_sunset_at_most_once_per_day_witness:
  "sorted (sunrise_days ParseFloat_example two_days)
   \<and> sorted (sunset_days ParseFloat_example two_days)
   \<and> ran (fst (runAtSunriseSunset ParseFloat_example two_days)) =
       [sunrise [2021, 6, 1], sunset [2021, 6, 1], sunrise [2021, 6, 2]]
   \<and> count_list (ran (fst (runAtSunriseSunset ParseFloat_example two_days))) (sunrise [2021, 6, 1]) \<le> 1
   \<and> count_list (ran (fst (runAtSunriseSunset ParseFloat_example two_days))) (sunset [2021, 6, 1]) \<le> 1"
  using sunrise_sunset_at_most_once_per_day [OF two_days_sorted, of "[2021, 6, 1]"]
    two_days_sorted two_days_run
  by simp

text \<open>
  The counterexample to C7 as stated: with the clock set back from day 2 to day 1, the
  sunrise transition runs twice for day 1.
\<close>

theorem sunrise_twice_when_clock_set_back:
  "ran (fst (runAtSunriseSunset ParseFloat_example clock_set_back)) =
     [sunrise [2021, 6, 1], sunrise [2021, 6, 2], sunrise [2021, 6, 1]]
   \<and> count_list (ran (fst (runAtSunriseSunset ParseFloat_example clock_set_back)))
         (sunrise [2021, 6, 1]) = 2
   \<and> \<not> count_list (ran (fst (runAtSunriseSunset ParseFloat_example clock_set_back)))
         (sunrise [2021, 6, 1]) \<le> 1
   \<and> \<not> sorted (sunrise_days ParseFloat_example clock_set_back)"
proof -
  have r: "ran (fst (runAtSunriseSunset ParseFloat_example clock_set_back)) =
     [sunrise [2021, 6, 1], sunrise [2021, 6, 2], sunrise [2021, 6, 1]]"
    by (simp add: runAtSunriseSunset_def clock_set_back_def SunriseAndSunsetTimes_located
        at_sunrise_eval at_sunset_eval marker_on_day scheduler_init_def pass_sel)
  have s: "\<not> sorted (sunrise_days ParseFloat_example clock_set_back)"
    by (simp add: sunrise_days_def clock_set_back_def SunriseAndSunsetTimes_located
        marker_on_day)
  from r s show ?thesis by simp
qed

text \<open>
  C6 (fails on the code). On a pass at which the location is unknown the loop does not
  skip the pass: it returns, so the later pass at which the location is known and the
  sunrise instant has been reached runs nothing. Started at that later pass, the loop
  runs the sunrise transition.
\<close>

theorem scheduler_stops_when_location_unknown:
  "SunriseAndSunsetTimes ParseFloat_example (pass controller_unlocated 1 50) =
     Inl (Error ''location is unknown'')
   \<and> runAtSunriseSunset ParseFloat_example
       [pass controller_unlocated 1 50, pass controller_located 1 150] =
     (scheduler_init, Returned)
   \<and> runAtSunriseSunset ParseFloat_example [pass controller_located 1 150] =
     (\<lparr>lastSunrise = [2021, 6, 1], lastSunset = [0, 0, 0], ran = [sunrise [2021, 6, 1]]\<rparr>, Running)"
  by (simp add: runAtSunriseSunset_def SunriseAndSunsetTimes_located SunriseAndSunsetTimes_unlocated
      at_sunrise_eval at_sunset_eval marker_on_day scheduler_init_def pass_sel)

lemma drain_fold: "drain source pending = fold (OR) pending source"
  by (induction pending arbitrary: source) (simp_all add: or.commute)

lemma bit_drain:
  "bit (drain source pending) n \<longleftrightarrow> bit source n \<or> (\<exists>s \<in> set pending. bit s n)"
  by (induction pending arbitrary: source) (auto simp add: bit_or_iff)

lemma diff_categories:
  "Status (fst (diff x y)) = (if Status x = Status y then None else Status x)"
  "Options (fst (diff x y)) = (if Options x = Options y then None else Options x)"
  "Jumprun (fst (diff x y)) = (if Jumprun x = Jumprun y then None else Jumprun x)"
  "WindsAloft (fst (diff x y)) = (if WindsAloft x = WindsAloft y then None else WindsAloft x)"
  "Loads (fst (diff x y)) = (if Loads x = Loads y then None else Loads x)"
  by (simp_all add: diff_def proto_Equal_def Let_def)

lemma diff_changed:
  "snd (diff x y) \<longleftrightarrow>
     Status (fst (diff x y)) \<noteq> None \<or> Options (fst (diff x y)) \<noteq> None \<or>
     Jumprun (fst (diff x y)) \<noteq> None \<or> WindsAloft (fst (diff x y)) \<noteq> None \<or>
     Loads (fst (diff x y)) \<noteq> None"
  by (simp add: diff_def Let_def)

lemma broadcast_apply:
  "broadcast u cl sent ch = sent ch @ replicate (count_list (map snd cl) ch) (update_ptr u)"
  by (induction cl arbitrary: sent) (auto simp add: broadcast_def replicate_append_same)

lemma notified_eq:
  assumes "constructUpdate app (options st) (drain source pending) = Inr (S2, options')"
  shows "notified app source pending st =
     (if snd (diff S2 (lastUpdate st)) then
        (st\<lparr>notifications := [], constructed := constructed st @ [drain source pending],
            options := options',
            updates_sent := broadcast (fst (diff S2 (lastUpdate st))) (clients st) (updates_sent st),
            lastUpdate := Merge (lastUpdate st) (fst (diff S2 (lastUpdate st)))\<rparr>, Running)
      else
        (st\<lparr>notifications := [], constructed := constructed st @ [drain source pending],
            options := options'\<rparr>, Running))"
  using assms by (simp add: notified_def Let_def split: prod.splits)

lemma notified_crash:
  assumes "constructUpdate app (options st) (drain source pending) = Inl e"
  shows "notified app source pending st =
     (st\<lparr>notifications := [], constructed := constructed st @ [drain source pending]\<rparr>, Crashed)"
  using assms by (simp add: notified_def Let_def)

lemma notified_frame:
  "notifications (fst (notified app source pending st)) = []"
  "constructed (fst (notified app source pending st)) = constructed st @ [drain source pending]"
  "clientID (fst (notified app source pending st)) = clientID st"
  "clients (fst (notified app source pending st)) = clients st"
  "addClientChan (fst (notified app source pending st)) = addClientChan st"
  "removeClientChan (fst (notified app source pending st)) = removeClientChan st"
  "addClient_replies (fst (notified app source pending st)) = addClient_replies st"
  "removeClient_replies (fst (notified app source pending st)) = removeClient_replies st"
  by (cases "constructUpdate app (options st) (drain source pending)";
      auto simp add: notified_eq notified_crash)+

lemma controller_winds_sel:
  "jumprun (controller_winds v) = Some jumprun_example"
  "windsAloftSource (controller_winds v) = Some [sample_example v]"
  "metarSource (controller_winds v) = metarSource controller_located"
  "settings (controller_winds v) = settings controller_located"
  "burbleSource (controller_winds v) = burbleSource controller_located"
  "SeparationStrings (controller_winds v) = SeparationStrings controller_located"
  by (simp_all add: controller_winds_def)

lemma construct_Status_winds:
  "construct_Status (controller_winds v) = construct_Status (controller_winds 0)"
  by (simp add: construct_Status_def controller_winds_sel)

lemma construct_WindsAloft_example:
  "construct_WindsAloft [sample_example 10] = \<lparr>WindsAloft_Samples = [WindsAloft_example 10]\<rparr>"
  "construct_WindsAloft [sample_example 20] = \<lparr>WindsAloft_Samples = [WindsAloft_example 20]\<rparr>"
  by (simp_all add: construct_WindsAloft_def sample_example_def WindsAloft_example_def)

lemma constructUpdate_baseline:
  "constructUpdate (controller_winds v) o' (baseline_source (controller_winds v)) =
     Inr (\<lparr>Status = Some (construct_Status (controller_winds 0)),
           Options = Some (construct_Options (settings_Options (settings controller_located))),
           Jumprun = Some (construct_Jumprun jumprun_example),
           WindsAloft = Some (construct_WindsAloft [sample_example v]),
           Loads = None\<rparr>, settings_Options (settings controller_located))"
  by (simp add: constructUpdate_def baseline_source_def controller_winds_sel Let_def
      optionsSources_def statusSources_def jumprunSources_def windsAloftSources_def
      loadsSources_def DataSource_values controller_located_def controller_unlocated_def
      construct_Status_winds [of v])

lemma constructUpdate_winds:
  "constructUpdate (controller_winds v) o' WindsAloftDataSource =
     Inr (\<lparr>Status = Some (construct_Status (controller_winds 0)),
           Options = None,
           Jumprun = Some (construct_Jumprun jumprun_example),
           WindsAloft = Some (construct_WindsAloft [sample_example v]),
           Loads = None\<rparr>, o')"
  by (simp add: constructUpdate_def controller_winds_sel Let_def
      optionsSources_def statusSources_def jumprunSources_def windsAloftSources_def
      loadsSources_def DataSource_values construct_Status_winds [of v])

lemma server_example_eq:
  "server_example =
     newManifestServiceServer
       \<lparr>options := settings_Options (settings controller_located),
        notifications := [WindsAloftDataSource],
        clientID := 1,
        clients := [(1, 2)],
        lastUpdate :=
          \<lparr>Status = Some (construct_Status (controller_winds 0)),
           Options = Some (construct_Options (settings_Options (settings controller_located))),
           Jumprun = Some (construct_Jumprun jumprun_example),
           WindsAloft = Some (construct_WindsAloft [sample_example 10]),
           Loads = None\<rparr>,
        updates_sent := (\<lambda>ch. [])(2 := [lastUpdate_ptr]),
        addClient_replies := (\<lambda>ch. [])(1 := [1])\<rparr>"
  by (simp add: server_example_def processUpdates_begin_def constructUpdate_baseline
      processUpdates_select_def add_client_def newManifestServiceServer_def Let_def)

lemma select_recv_c:
  "notifications st = source # pending \<Longrightarrow>
   processUpdates_select app recv_c st = notified app source pending st"
  by (simp add: processUpdates_select_def)

text \<open>
  C4. Let \<open>S2\<close> be the update constructed for the coalesced mask and \<open>S1\<close> any state to
  compare with (the actor uses its \<open>lastUpdate\<close>). The update that \<open>diff\<close> leaves holds a
  category exactly when \<open>S2\<close> holds it with a value that is not equal to the one of \<open>S1\<close>
  (a category \<open>S1\<close> lacks differs), with the value of \<open>S2\<close>; \<open>diff\<close> answers whether a
  category is left; and the pass sends that update once per registration on each
  registered channel when a category is left, and sends nothing on any channel when
  none is.
\<close>

theorem diff_emits_exactly_changed_categories:
  assumes "notifications st = source # pending"
    and "constructUpdate app (options st) (drain source pending) = Inr (S2, options')"
  shows "Status (fst (diff S2 S1)) = (if Status S2 = Status S1 then None else Status S2)
     \<and> Options (fst (diff S2 S1)) = (if Options S2 = Options S1 then None else Options S2)
     \<and> Jumprun (fst (diff S2 S1)) = (if Jumprun S2 = Jumprun S1 then None else Jumprun S2)
     \<and> WindsAloft (fst (diff S2 S1)) =
         (if WindsAloft S2 = WindsAloft S1 then None else WindsAloft S2)
     \<and> Loads (fst (diff S2 S1)) = (if Loads S2 = Loads S1 then None else Loads S2)
     \<and> snd (diff S2 S1) =
         (Status (fst (diff S2 S1)) \<noteq> None \<or> Options (fst (diff S2 S1)) \<noteq> None \<or>
          Jumprun (fst (diff S2 S1)) \<noteq> None \<or> WindsAloft (fst (diff S2 S1)) \<noteq> None \<or>
          Loads (fst (diff S2 S1)) \<noteq> None)
     \<and> updates_sent (fst (processUpdates_select app recv_c st)) ch =
         (if snd (diff S2 (lastUpdate st)) then
            updates_sent st ch @
              replicate (count_list (map snd (clients st)) ch)
                (update_ptr (fst (diff S2 (lastUpdate st))))
          else updates_sent st ch)"
proof -
  have "updates_sent (fst (processUpdates_select app recv_c st)) ch =
         (if snd (diff S2 (lastUpdate st)) then
            updates_sent st ch @
              replicate (count_list (map snd (clients st)) ch)
                (update_ptr (fst (diff S2 (lastUpdate st))))
          else updates_sent st ch)"
    by (simp add: select_recv_c [OF assms(1)] notified_eq [OF assms(2)] broadcast_apply)
  then show ?thesis
    using diff_changed [of S2 S1] by (simp add: diff_categories)
qed

theorem diff_emits_exactly_changed_categories_witness:
  "notifications server_example = [WindsAloftDataSource]
   \<and> (\<exists>S2 options'.
        constructUpdate (controller_winds 20) (options server_example)
          (drain WindsAloftDataSource []) = Inr (S2, options')
        \<and> Status S2 \<noteq> None \<and> Jumprun S2 \<noteq> None
        \<and> fst (diff S2 (lastUpdate server_example)) =
            \<lparr>Status = None, Options = None, Jumprun = None,
             WindsAloft = Some \<lparr>WindsAloft_Samples = [WindsAloft_example 20]\<rparr>, Loads = None\<rparr>)
   \<and> updates_sent (fst (processUpdates_select (controller_winds 20) recv_c server_example)) 2 =
       [lastUpdate_ptr,
        update_ptr \<lparr>Status = None, Options = None, Jumprun = None,
          WindsAloft = Some \<lparr>WindsAloft_Samples = [WindsAloft_example 20]\<rparr>, Loads = None\<rparr>]
   \<and> updates_sent (fst (processUpdates_select (controller_winds 10) recv_c server_example)) 2 =
       [lastUpdate_ptr]"
proof -
  have n: "notifications server_example = [WindsAloftDataSource]"
    by (simp add: server_example_eq)
  have v: "WindsAloft_example 10 \<noteq> WindsAloft_example 20"
    by (simp add: WindsAloft_example_def)
  have c: "constructUpdate (controller_winds v) (options server_example)
      (drain WindsAloftDataSource []) =
     Inr (\<lparr>Status = Some (construct_Status (controller_winds 0)),
           Options = None,
           Jumprun = Some (construct_Jumprun jumprun_example),
           WindsAloft = Some (construct_WindsAloft [sample_example v]),
           Loads = None\<rparr>, options server_example)" for v
    by (simp add: constructUpdate_winds)
  have d20: "diff \<lparr>Status = Some (construct_Status (controller_winds 0)),
           Options = None,
           Jumprun = Some (construct_Jumprun jumprun_example),
           WindsAloft = Some (construct_WindsAloft [sample_example 20]),
           Loads = None\<rparr> (lastUpdate server_example) =
        (\<lparr>Status = None, Options = None, Jumprun = None,
          WindsAloft = Some \<lparr>WindsAloft_Samples = [WindsAloft_example 20]\<rparr>, Loads = None\<rparr>, True)"
    using v by (simp add: diff_def proto_Equal_def server_example_eq construct_WindsAloft_example)
  have d10: "snd (diff \<lparr>Status = Some (construct_Status (controller_winds 0)),
           Options = None,
           Jumprun = Some (construct_Jumprun jumprun_example),
           WindsAloft = Some (construct_WindsAloft [sample_example 10]),
           Loads = None\<rparr> (lastUpdate server_example)) = False"
    by (simp add: diff_def proto_Equal_def server_example_eq)
  have s: "updates_sent server_example 2 = [lastUpdate_ptr]" "clients server_example = [(1, 2)]"
    by (simp_all add: server_example_eq)
  show ?thesis
    using diff_emits_exactly_changed_categories [OF n c [of 20], of _ 2]
      diff_emits_exactly_changed_categories [OF n c [of 10], of _ 2]
      n c [of 20] d20 d10 s
    by simp
qed

text \<open>
  C8. When the pass that receives a notification finds \<open>source # pending\<close> queued
  (\<open>N = 1 + length pending\<close>), it leaves the channel empty and calls \<^verbatim>\<open>constructUpdate\<close>
  exactly once, for the mask that has a bit exactly when one of the \<open>N\<close> queued masks has
  it; the whole pass is the pass for one notification carrying that mask.
\<close>

theorem notifications_coalesced_into_one_update:
  assumes "notifications st = source # pending"
  shows "notifications (fst (processUpdates_select app recv_c st)) = []
     \<and> constructed (fst (processUpdates_select app recv_c st)) =
         constructed st @ [fold (OR) pending source]
     \<and> (\<forall>n. bit (fold (OR) pending source) n \<longleftrightarrow> (\<exists>s \<in> set (notifications st). bit s n))
     \<and> processUpdates_select app recv_c st =
         processUpdates_select app recv_c (st\<lparr>notifications := [fold (OR) pending source]\<rparr>)"
proof -
  have "notified app source pending st =
        notified app (fold (OR) pending source) [] (st\<lparr>notifications := [fold (OR) pending source]\<rparr>)"
    by (simp add: notified_def drain_fold)
  then have 1: "processUpdates_select app recv_c st =
         processUpdates_select app recv_c (st\<lparr>notifications := [fold (OR) pending source]\<rparr>)"
    using assms by (simp add: processUpdates_select_def)
  have 2: "\<forall>n. bit (fold (OR) pending source) n \<longleftrightarrow> (\<exists>s \<in> set (notifications st). bit s n)"
    using bit_drain [of source pending] by (simp add: assms drain_fold)
  have 3: "notifications (fst (processUpdates_select app recv_c st)) = []
     \<and> constructed (fst (processUpdates_select app recv_c st)) =
         constructed st @ [fold (OR) pending source]"
    by (simp add: select_recv_c [OF assms] notified_frame drain_fold)
  from 1 2 3 show ?thesis by blast
qed

theorem notifications_coalesced_into_one_update_witness:
  "notifications server_burst = [JumprunDataSource, METARDataSource, JumprunDataSource]
   \<and> notifications (fst (processUpdates_select (controller_winds 10) recv_c server_burst)) = []
   \<and> constructed (fst (processUpdates_select (controller_winds 10) recv_c server_burst)) = [6]"
proof -
  have n: "notifications server_burst = JumprunDataSource # [METARDataSource, JumprunDataSource]"
    by (simp add: server_burst_def)
  have f: "fold (OR) [METARDataSource, JumprunDataSource] JumprunDataSource = 6"
    by (simp add: DataSource_values)
  have c: "constructed server_burst = []"
    by (simp add: server_burst_def server_example_eq newManifestServiceServer_def)
  from notifications_coalesced_into_one_update [OF n, of "controller_winds 10"]
  have "notifications (fst (processUpdates_select (controller_winds 10) recv_c server_burst)) = []
     \<and> constructed (fst (processUpdates_select (controller_winds 10) recv_c server_burst)) =
         constructed server_burst @ [fold (OR) [METARDataSource, JumprunDataSource] JumprunDataSource]"
    by blast
  then show ?thesis using n by (simp only: f c append_Nil simp_thms)
qed

lemma Merge_absent:
  "Status d = None \<Longrightarrow> Status (Merge l d) = Status l"
  "Options d = None \<Longrightarrow> Options (Merge l d) = Options l"
  "Jumprun d = None \<Longrightarrow> Jumprun (Merge l d) = Jumprun l"
  "WindsAloft d = None \<Longrightarrow> WindsAloft (Merge l d) = WindsAloft l"
  "Loads d = None \<Longrightarrow> Loads (Merge l d) = Loads l"
  by (simp_all add: Merge_def merge_message_def)

text \<open>
  C2 (fails on the code). The wind-aloft sample changes from speed 10 to speed 20; the
  emitted diff holds the wind-aloft category with the one new sample, and the merge
  leaves \<open>lastUpdate\<close> with both samples: \<^verbatim>\<open>proto.Merge\<close> appends to a list field, and it
  does not copy a scalar of the diff that is the zero value (an option switched off, a
  message cleared).
\<close>

theorem Merge_appends_instead_of_overwriting:
  "lastUpdate server_example =
     \<lparr>Status = Some (construct_Status (controller_winds 0)),
      Options = Some (construct_Options (settings_Options (settings controller_located))),
      Jumprun = Some (construct_Jumprun jumprun_example),
      WindsAloft = Some \<lparr>WindsAloft_Samples = [WindsAloft_example 10]\<rparr>,
      Loads = None\<rparr>
   \<and> updates_sent (fst (processUpdates_select (controller_winds 20) recv_c server_example)) 2 =
       [lastUpdate_ptr,
        update_ptr \<lparr>Status = None, Options = None, Jumprun = None,
          WindsAloft = Some \<lparr>WindsAloft_Samples = [WindsAloft_example 20]\<rparr>, Loads = None\<rparr>]
   \<and> lastUpdate (fst (processUpdates_select (controller_winds 20) recv_c server_example)) =
     \<lparr>Status = Some (construct_Status (controller_winds 0)),
      Options = Some (construct_Options (settings_Options (settings controller_located))),
      Jumprun = Some (construct_Jumprun jumprun_example),
      WindsAloft = Some \<lparr>WindsAloft_Samples = [WindsAloft_example 10, WindsAloft_example 20]\<rparr>,
      Loads = None\<rparr>
   \<and> Merge_Options
        (construct_Options \<lparr>settings_DisplayNicknames = True, settings_DisplayWeather = False,
           settings_DisplayWinds = False, settings_Message = ''Closed''\<rparr>)
        (construct_Options \<lparr>settings_DisplayNicknames = False, settings_DisplayWeather = False,
           settings_DisplayWinds = False, settings_Message = []\<rparr>) =
      construct_Options \<lparr>settings_DisplayNicknames = True, settings_DisplayWeather = False,
           settings_DisplayWinds = False, settings_Message = ''Closed''\<rparr>"
proof -
  have n: "notifications server_example = [WindsAloftDataSource]"
    by (simp add: server_example_eq)
  have v: "WindsAloft_example 10 \<noteq> WindsAloft_example 20"
    by (simp add: WindsAloft_example_def)
  have c: "constructUpdate (controller_winds 20) (options server_example)
      (drain WindsAloftDataSource []) =
     Inr (\<lparr>Status = Some (construct_Status (controller_winds 0)),
           Options = None,
           Jumprun = Some (construct_Jumprun jumprun_example),
           WindsAloft = Some (construct_WindsAloft [sample_example 20]),
           Loads = None\<rparr>, options server_example)"
    by (simp add: constructUpdate_winds)
  have l: "lastUpdate server_example =
     \<lparr>Status = Some (construct_Status (controller_winds 0)),
      Options = Some (construct_Options (settings_Options (settings controller_located))),
      Jumprun = Some (construct_Jumprun jumprun_example),
      WindsAloft = Some \<lparr>WindsAloft_Samples = [WindsAloft_example 10]\<rparr>,
      Loads = None\<rparr>"
    by (simp add: server_example_eq construct_WindsAloft_example)
  have d: "diff \<lparr>Status = Some (construct_Status (controller_winds 0)),
           Options = None,
           Jumprun = Some (construct_Jumprun jumprun_example),
           WindsAloft = Some (construct_WindsAloft [sample_example 20]),
           Loads = None\<rparr> (lastUpdate server_example) =
        (\<lparr>Status = None, Options = None, Jumprun = None,
          WindsAloft = Some \<lparr>WindsAloft_Samples = [WindsAloft_example 20]\<rparr>, Loads = None\<rparr>, True)"
    using v by (simp add: diff_def proto_Equal_def l construct_WindsAloft_example)
  have s: "updates_sent server_example 2 = [lastUpdate_ptr]" "clients server_example = [(1, 2)]"
    by (simp_all add: server_example_eq)
  have m: "Merge (lastUpdate server_example)
      \<lparr>Status = None, Options = None, Jumprun = None,
          WindsAloft = Some \<lparr>WindsAloft_Samples = [WindsAloft_example 20]\<rparr>, Loads = None\<rparr> =
     \<lparr>Status = Some (construct_Status (controller_winds 0)),
      Options = Some (construct_Options (settings_Options (settings controller_located))),
      Jumprun = Some (construct_Jumprun jumprun_example),
      WindsAloft = Some \<lparr>WindsAloft_Samples = [WindsAloft_example 10, WindsAloft_example 20]\<rparr>,
      Loads = None\<rparr>"
    by (simp add: l Merge_def merge_message_def Merge_WindsAloft_def)
  have step: "processUpdates_select (controller_winds 20) recv_c server_example =
      notified (controller_winds 20) WindsAloftDataSource [] server_example"
    by (simp add: select_recv_c [OF n])
  have 1: "updates_sent (fst (processUpdates_select (controller_winds 20) recv_c server_example)) 2 =
       [lastUpdate_ptr,
        update_ptr \<lparr>Status = None, Options = None, Jumprun = None,
          WindsAloft = Some \<lparr>WindsAloft_Samples = [WindsAloft_example 20]\<rparr>, Loads = None\<rparr>]"
    by (simp add: step notified_eq [OF c] d broadcast_apply s)
  have 2: "lastUpdate (fst (processUpdates_select (controller_winds 20) recv_c server_example)) =
     \<lparr>Status = Some (construct_Status (controller_winds 0)),
      Options = Some (construct_Options (settings_Options (settings controller_located))),
      Jumprun = Some (construct_Jumprun jumprun_example),
      WindsAloft = Some \<lparr>WindsAloft_Samples = [WindsAloft_example 10, WindsAloft_example 20]\<rparr>,
      Loads = None\<rparr>"
    by (simp add: step notified_eq [OF c] d m)
  have 3: "Merge_Options
        (construct_Options \<lparr>settings_DisplayNicknames = True, settings_DisplayWeather = False,
           settings_DisplayWinds = False, settings_Message = ''Closed''\<rparr>)
        (construct_Options \<lparr>settings_DisplayNicknames = False, settings_DisplayWeather = False,
           settings_DisplayWinds = False, settings_Message = []\<rparr>) =
      construct_Options \<lparr>settings_DisplayNicknames = True, settings_DisplayWeather = False,
           settings_DisplayWinds = False, settings_Message = ''Closed''\<rparr>"
    by (simp add: Merge_Options_def construct_Options_def merge_bool_def merge_string_def)
  from l 1 2 3 show ?thesis by blast
qed

lemma select_recv_addClientChan:
  "addClientChan st = req # queued \<Longrightarrow>
   processUpdates_select app recv_addClientChan st =
     (add_client req (st\<lparr>addClientChan := queued\<rparr>), Running)"
  by (simp add: processUpdates_select_def)

lemma word64_less_succ:
  fixes x :: "64 word"
  shows "x \<noteq> - 1 \<Longrightarrow> x < x + 1"
  by (metis inc_less_eq_triv_imp linorder_less_linear word_le_less_eq)

lemma word64_le_less_succ:
  fixes x :: "64 word"
  shows "x \<noteq> - 1 \<Longrightarrow> i \<le> x \<Longrightarrow> i < x + 1"
  using inc_less_eq_iff by fastforce

lemma select_updates_sent_prefix:
  "prefix (updates_sent st ch) (updates_sent (fst (processUpdates_select app sc st)) ch)"
proof (cases sc)
  case ctx_Done
  then show ?thesis by (simp add: processUpdates_select_def)
next
  case recv_addClientChan
  then show ?thesis
    by (cases "addClientChan st") (simp_all add: processUpdates_select_def add_client_def Let_def)
next
  case recv_removeClientChan
  then show ?thesis
    by (cases "removeClientChan st") (simp_all add: processUpdates_select_def remove_client_def)
next
  case recv_c
  show ?thesis
  proof (cases "notifications st")
    case Nil
    with recv_c show ?thesis by (simp add: processUpdates_select_def)
  next
    case (Cons source pending)
    show ?thesis
    proof (cases "constructUpdate app (options st) (drain source pending)")
      case (Inl e)
      then show ?thesis
        using recv_c by (simp add: select_recv_c [OF Cons] notified_crash)
    next
      case (Inr p)
      obtain S2 options' where "p = (S2, options')" by (cases p)
      with Inr show ?thesis
        using recv_c by (simp add: select_recv_c [OF Cons] notified_eq broadcast_apply)
    qed
  qed
qed

lemma loop_updates_sent_prefix:
  "prefix (updates_sent st ch) (updates_sent (fst (processUpdates_loop es st)) ch)"
proof (induction es arbitrary: st)
  case Nil
  then show ?case by simp
next
  case (Cons e es)
  show ?case
  proof (cases e)
    case (Select app sc)
    obtain st' r where step: "processUpdates_select app sc st = (st', r)"
      by (cases "processUpdates_select app sc st")
    have p: "prefix (updates_sent st ch) (updates_sent st' ch)"
      using select_updates_sent_prefix [of st ch app sc] by (simp add: step)
    show ?thesis
    proof (cases r)
      case Running
      with Select step have "processUpdates_loop (e # es) st = processUpdates_loop es st'"
        by simp
      with Cons.IH [of st'] p show ?thesis by (auto intro: prefix_order.trans)
    next
      case Returned
      with Select step p show ?thesis by simp
    next
      case Crashed
      with Select step p show ?thesis by simp
    qed
  next
    case (WakeListeners source)
    then show ?thesis
      using Cons.IH [of "st\<lparr>notifications := notifications st @ [source]\<rparr>"] by simp
  qed
qed

lemma select_ids_bounded:
  assumes "clientID st \<noteq> - 1"
    and "\<forall>ch. \<forall>i \<in> set (addClient_replies st ch). i \<le> clientID st"
  shows "\<forall>ch. \<forall>i \<in> set (addClient_replies (fst (processUpdates_select app sc st)) ch).
           i \<le> clientID (fst (processUpdates_select app sc st))"
proof (cases sc)
  case ctx_Done
  with assms show ?thesis by (simp add: processUpdates_select_def)
next
  case recv_addClientChan
  show ?thesis
  proof (cases "addClientChan st")
    case Nil
    with recv_addClientChan assms show ?thesis by (simp add: processUpdates_select_def)
  next
    case (Cons req queued)
    have "i \<le> clientID st + 1" if "i \<le> clientID st" for i
      using word64_le_less_succ [OF assms(1) that] by simp
    with assms(2) show ?thesis
      using recv_addClientChan
      by (auto simp add: select_recv_addClientChan [OF Cons] add_client_def Let_def)
  qed
next
  case recv_removeClientChan
  with assms show ?thesis
    by (cases "removeClientChan st") (simp_all add: processUpdates_select_def remove_client_def)
next
  case recv_c
  with assms show ?thesis
    by (cases "notifications st") (simp_all add: processUpdates_select_def notified_frame)
qed

lemma loop_no_admission:
  assumes "addClientChan st = []" and "removeClientChan st = []"
  shows "addClientChan (fst (processUpdates_loop es st)) = []
     \<and> removeClientChan (fst (processUpdates_loop es st)) = []
     \<and> addClient_replies (fst (processUpdates_loop es st)) = addClient_replies st
     \<and> removeClient_replies (fst (processUpdates_loop es st)) = removeClient_replies st
     \<and> clients (fst (processUpdates_loop es st)) = clients st
     \<and> clientID (fst (processUpdates_loop es st)) = clientID st"
  using assms
proof (induction es arbitrary: st)
  case Nil
  then show ?case by simp
next
  case (Cons e es)
  show ?case
  proof (cases e)
    case (Select app sc)
    obtain st' r where step: "processUpdates_select app sc st = (st', r)"
      by (cases "processUpdates_select app sc st")
    have frame: "addClientChan st' = [] \<and> removeClientChan st' = []
       \<and> addClient_replies st' = addClient_replies st
       \<and> removeClient_replies st' = removeClient_replies st
       \<and> clients st' = clients st \<and> clientID st' = clientID st"
    proof (cases sc)
      case recv_c
      with step have "st' = fst (processUpdates_select app recv_c st)" by simp
      then show ?thesis
        using Cons.prems
        by (cases "notifications st") (simp_all add: processUpdates_select_def notified_frame)
    qed (use step Cons.prems in \<open>auto simp add: processUpdates_select_def\<close>)
    show ?thesis
    proof (cases r)
      case Running
      with Select step have "processUpdates_loop (e # es) st = processUpdates_loop es st'"
        by simp
      with Cons.IH [of st'] frame show ?thesis by simp
    next
      case Returned
      with Select step frame show ?thesis by simp
    next
      case Crashed
      with Select step frame show ?thesis by simp
    qed
  next
    case (WakeListeners source)
    then show ?thesis
      using Cons.IH [of "st\<lparr>notifications := notifications st @ [source]\<rparr>"] Cons.prems by simp
  qed
qed

lemma begin_frame:
  "addClientChan (fst (processUpdates_begin app st)) = addClientChan st"
  "removeClientChan (fst (processUpdates_begin app st)) = removeClientChan st"
  "addClient_replies (fst (processUpdates_begin app st)) = addClient_replies st"
  "removeClient_replies (fst (processUpdates_begin app st)) = removeClient_replies st"
  "clients (fst (processUpdates_begin app st)) = []"
  by (cases "constructUpdate app (options st) (baseline_source app)";
      auto simp add: processUpdates_begin_def Let_def)+

text \<open>
  C3 (fails on the code). \<^verbatim>\<open>addClient\<close> and \<^verbatim>\<open>removeClient\<close> build their request and
  wait for the reply without sending the request: in every execution from the start of
  the server the admission channels stay empty, no reply is ever sent, so neither call
  returns, and no subscriber is ever registered.
\<close>

theorem addClient_never_delivers_its_request:
  "fst (addClient reply ch st) = st
   \<and> fst (removeClient reply' i st) = st
   \<and> addClient_returns
        (snd (addClient reply ch (fst (processUpdates_begin app newManifestServiceServer))))
        (fst (processUpdates_loop es
          (fst (addClient reply ch (fst (processUpdates_begin app newManifestServiceServer)))))) = None
   \<and> \<not> removeClient_returns
        (snd (removeClient reply' i (fst (processUpdates_begin app newManifestServiceServer))))
        (fst (processUpdates_loop es
          (fst (removeClient reply' i (fst (processUpdates_begin app newManifestServiceServer))))))
   \<and> clients (fst (processUpdates_loop es
          (fst (processUpdates_begin app newManifestServiceServer)))) = []
   \<and> addClient_replies (fst (processUpdates_loop es
          (fst (processUpdates_begin app newManifestServiceServer)))) = (\<lambda>ch. [])"
proof -
  let ?b = "fst (processUpdates_begin app newManifestServiceServer)"
  have b: "addClientChan ?b = []" "removeClientChan ?b = []"
    "addClient_replies ?b = (\<lambda>ch. [])" "removeClient_replies ?b = (\<lambda>ch. 0)" "clients ?b = []"
    by (simp_all add: begin_frame) (simp_all add: newManifestServiceServer_def)
  from loop_no_admission [OF b(1,2), of es] b
  show ?thesis
    by (simp add: addClient_def removeClient_def addClient_returns_def removeClient_returns_def)
qed






lemma category_in:
  "Status_category \<in> categories u \<longleftrightarrow> Status u \<noteq> None"
  "Options_category \<in> categories u \<longleftrightarrow> Options u \<noteq> None"
  "Jumprun_category \<in> categories u \<longleftrightarrow> Jumprun u \<noteq> None"
  "WindsAloft_category \<in> categories u \<longleftrightarrow> WindsAloft u \<noteq> None"
  "Loads_category \<in> categories u \<longleftrightarrow> Loads u \<noteq> None"
  by (simp_all add: categories_def)

lemma Merge_present:
  "Status (Merge l d) \<noteq> None \<longleftrightarrow> Status l \<noteq> None \<or> Status d \<noteq> None"
  "Options (Merge l d) \<noteq> None \<longleftrightarrow> Options l \<noteq> None \<or> Options d \<noteq> None"
  "Jumprun (Merge l d) \<noteq> None \<longleftrightarrow> Jumprun l \<noteq> None \<or> Jumprun d \<noteq> None"
  "WindsAloft (Merge l d) \<noteq> None \<longleftrightarrow> WindsAloft l \<noteq> None \<or> WindsAloft d \<noteq> None"
  "Loads (Merge l d) \<noteq> None \<longleftrightarrow> Loads l \<noteq> None \<or> Loads d \<noteq> None"
proof -
  show "Status (Merge l d) \<noteq> None \<longleftrightarrow> Status l \<noteq> None \<or> Status d \<noteq> None"
    by (cases "Status d") (simp_all add: Merge_def merge_message_def)
  show "Options (Merge l d) \<noteq> None \<longleftrightarrow> Options l \<noteq> None \<or> Options d \<noteq> None"
    by (cases "Options d") (simp_all add: Merge_def merge_message_def)
  show "Jumprun (Merge l d) \<noteq> None \<longleftrightarrow> Jumprun l \<noteq> None \<or> Jumprun d \<noteq> None"
    by (cases "Jumprun d") (simp_all add: Merge_def merge_message_def)
  show "WindsAloft (Merge l d) \<noteq> None \<longleftrightarrow> WindsAloft l \<noteq> None \<or> WindsAloft d \<noteq> None"
    by (cases "WindsAloft d") (simp_all add: Merge_def merge_message_def)
  show "Loads (Merge l d) \<noteq> None \<longleftrightarrow> Loads l \<noteq> None \<or> Loads d \<noteq> None"
    by (cases "Loads d") (simp_all add: Merge_def merge_message_def)
qed

lemma categories_Merge: "c \<in> categories (Merge l d) \<longleftrightarrow> c \<in> categories l \<or> c \<in> categories d"
  by (cases c) (simp_all only: category_in Merge_present)

lemma notified_broadcast_covered:
  assumes "broadcast_covered st"
  shows "broadcast_covered (fst (notified app source pending st))"
proof (cases "constructUpdate app (options st) (drain source pending)")
  case (Inl e)
  with assms show ?thesis
    by (simp add: notified_crash broadcast_covered_def)
next
  case (Inr p)
  obtain S2 options' where p: "p = (S2, options')" by (cases p)
  let ?d = "fst (diff S2 (lastUpdate st))"
  note eq = notified_eq [OF Inr [unfolded p]]
  show ?thesis
  proof (cases "snd (diff S2 (lastUpdate st))")
    case False
    with assms show ?thesis by (simp add: eq broadcast_covered_def)
  next
    case True
    have sent: "updates_sent (fst (notified app source pending st)) ch =
        updates_sent st ch @ replicate (count_list (map snd (clients st)) ch) (update_ptr ?d)" for ch
      using True by (simp add: eq broadcast_apply)
    have last: "lastUpdate (fst (notified app source pending st)) = Merge (lastUpdate st) ?d"
      using True by (simp add: eq)
    show ?thesis
      unfolding broadcast_covered_def
    proof (intro allI impI subsetI)
      fix ch u c
      assume u: "update_ptr u \<in> set (updates_sent (fst (notified app source pending st)) ch)"
        and c: "c \<in> categories u"
      from u have "update_ptr u \<in> set (updates_sent st ch) \<or> u = ?d"
        by (auto simp add: sent)
      then have "c \<in> categories (lastUpdate st) \<or> c \<in> categories ?d"
        using assms c by (auto simp add: broadcast_covered_def)
      then show "c \<in> categories (lastUpdate (fst (notified app source pending st)))"
        by (simp add: last categories_Merge)
    qed
  qed
qed

lemma select_broadcast_covered:
  assumes "broadcast_covered st"
  shows "broadcast_covered (fst (processUpdates_select app sc st))"
proof (cases sc)
  case ctx_Done
  with assms show ?thesis by (simp add: processUpdates_select_def)
next
  case recv_addClientChan
  show ?thesis
  proof (cases "addClientChan st")
    case Nil
    with recv_addClientChan assms show ?thesis by (simp add: processUpdates_select_def)
  next
    case (Cons req queued)
    have "updates_sent (add_client req (st\<lparr>addClientChan := queued\<rparr>)) ch =
        (if ch = addClientRequest_updates req then updates_sent st ch @ [lastUpdate_ptr]
         else updates_sent st ch)" for ch
      by (simp add: add_client_def Let_def)
    moreover have "lastUpdate (add_client req (st\<lparr>addClientChan := queued\<rparr>)) = lastUpdate st"
      by (simp add: add_client_def Let_def)
    ultimately have "broadcast_covered (add_client req (st\<lparr>addClientChan := queued\<rparr>))"
      using assms by (simp add: broadcast_covered_def)
    then show ?thesis
      using recv_addClientChan by (simp add: select_recv_addClientChan [OF Cons])
  qed
next
  case recv_removeClientChan
  show ?thesis
  proof (cases "removeClientChan st")
    case Nil
    with recv_removeClientChan assms show ?thesis by (simp add: processUpdates_select_def)
  next
    case (Cons req queued)
    with recv_removeClientChan assms show ?thesis
      by (simp add: processUpdates_select_def remove_client_def broadcast_covered_def)
  qed
next
  case recv_c
  show ?thesis
  proof (cases "notifications st")
    case Nil
    with recv_c assms show ?thesis by (simp add: processUpdates_select_def)
  next
    case (Cons source pending)
    with recv_c notified_broadcast_covered [OF assms] show ?thesis
      by (simp add: select_recv_c [OF Cons])
  qed
qed

text \<open>
  C5. A pass that receives an admission request, in a state where every identifier
  replied so far is at most \<open>clientID\<close> (kept by every pass, \<open>select_ids_bounded\<close>),
  \<open>clientID\<close> has not reached the largest 64-bit value, and \<open>lastUpdate\<close> holds every
  category broadcast so far (kept by every pass, \<open>select_broadcast_covered\<close>): the new
  identifier is \<open>clientID + 1\<close>, strictly greater than every identifier replied before; it
  is sent on the request's reply channel and registered with the request's updates
  channel; the pointer to the current \<open>lastUpdate\<close> is sent on that channel and on no
  other; \<open>lastUpdate\<close>, which still holds every category broadcast, and the other queues
  are untouched (no other command is processed in the pass); and whatever later passes
  send on a channel comes after what it holds now.
\<close>

theorem admission_assigns_fresh_id_and_pushes_baseline:
  assumes "addClientChan st = req # queued"
    and "clientID st \<noteq> - 1"
    and "\<forall>ch. \<forall>i \<in> set (addClient_replies st ch). i \<le> clientID st"
    and "broadcast_covered st"
    and "processUpdates_select app recv_addClientChan st = (st', r)"
  shows "r = Running
     \<and> clientID st' = clientID st + 1
     \<and> clientID st < clientID st'
     \<and> (\<forall>ch. \<forall>i \<in> set (addClient_replies st ch). i < clientID st')
     \<and> addClient_replies st' (addClientRequest_reply req) =
         addClient_replies st (addClientRequest_reply req) @ [clientID st']
     \<and> map_of (clients st') (clientID st') = Some (addClientRequest_updates req)
     \<and> updates_sent st' (addClientRequest_updates req) =
         updates_sent st (addClientRequest_updates req) @ [lastUpdate_ptr]
     \<and> (\<forall>ch. ch \<noteq> addClientRequest_updates req \<longrightarrow> updates_sent st' ch = updates_sent st ch)
     \<and> lastUpdate st' = lastUpdate st
     \<and> addClientChan st' = queued
     \<and> removeClientChan st' = removeClientChan st
     \<and> notifications st' = notifications st
     \<and> constructed st' = constructed st
     \<and> (\<forall>ch. \<forall>i \<in> set (addClient_replies st' ch). i \<le> clientID st')
     \<and> (\<forall>ch u. update_ptr u \<in> set (updates_sent st' ch) \<longrightarrow>
          categories u \<subseteq> categories (lastUpdate st'))
     \<and> (\<forall>es ch. prefix (updates_sent st' ch) (updates_sent (fst (processUpdates_loop es st')) ch))"
proof -
  from assms(1,5) have st': "st' = add_client req (st\<lparr>addClientChan := queued\<rparr>)"
    and r: "r = Running"
    by (simp_all add: select_recv_addClientChan)
  have lt: "clientID st < clientID st + 1"
    by (rule word64_less_succ [OF assms(2)])
  have old: "\<forall>ch. \<forall>i \<in> set (addClient_replies st ch). i < clientID st + 1"
    using assms(3) word64_le_less_succ [OF assms(2)] by blast
  have inv: "\<forall>ch. \<forall>i \<in> set (addClient_replies st' ch). i \<le> clientID st'"
    using select_ids_bounded [OF assms(2,3), of app recv_addClientChan] by (simp add: assms(5))
  have cov: "\<forall>ch u. update_ptr u \<in> set (updates_sent st' ch) \<longrightarrow>
          categories u \<subseteq> categories (lastUpdate st')"
    using select_broadcast_covered [OF assms(4), of app recv_addClientChan]
    by (simp add: assms(5) broadcast_covered_def)
  have fields: "clientID st' = clientID st + 1"
    "addClient_replies st' (addClientRequest_reply req) =
         addClient_replies st (addClientRequest_reply req) @ [clientID st + 1]"
    "map_of (clients st') (clientID st + 1) = Some (addClientRequest_updates req)"
    "updates_sent st' (addClientRequest_updates req) =
         updates_sent st (addClientRequest_updates req) @ [lastUpdate_ptr]"
    "\<forall>ch. ch \<noteq> addClientRequest_updates req \<longrightarrow> updates_sent st' ch = updates_sent st ch"
    "lastUpdate st' = lastUpdate st" "addClientChan st' = queued"
    "removeClientChan st' = removeClientChan st" "notifications st' = notifications st"
    "constructed st' = constructed st"
    by (simp_all add: st' add_client_def Let_def update_conv')
  from r lt old inv cov fields loop_updates_sent_prefix show ?thesis by simp
qed

theorem admission_assigns_fresh_id_and_pushes_baseline_witness:
  "addClientChan server_admitting = [\<lparr>addClientRequest_reply = 3, addClientRequest_updates = 4\<rparr>]
   \<and> clientID server_admitting = 1
   \<and> clientID server_admitting \<noteq> - 1
   \<and> addClient_replies server_admitting 1 = [1]
   \<and> broadcast_covered server_admitting
   \<and> clientID (fst (processUpdates_select (controller_winds 10) recv_addClientChan server_admitting)) = 2
   \<and> addClient_replies (fst (processUpdates_select (controller_winds 10) recv_addClientChan server_admitting)) 3 = [2]
   \<and> updates_sent (fst (processUpdates_select (controller_winds 10) recv_addClientChan server_admitting)) 4 =
       [lastUpdate_ptr]"
proof -
  have a: "addClientChan server_admitting =
      \<lparr>addClientRequest_reply = 3, addClientRequest_updates = 4\<rparr> # []"
    by (simp add: server_admitting_def)
  have b: "clientID server_admitting = 1" "clientID server_admitting \<noteq> - 1"
    by (simp_all add: server_admitting_def server_example_eq)
  have c: "\<forall>ch. \<forall>i \<in> set (addClient_replies server_admitting ch). i \<le> clientID server_admitting"
    by (simp add: server_admitting_def server_example_eq newManifestServiceServer_def)
  have d: "addClient_replies server_admitting 1 = [1]" "addClient_replies server_admitting 3 = []"
    "updates_sent server_admitting 4 = []"
    by (simp_all add: server_admitting_def server_example_eq newManifestServiceServer_def)
  have e: "broadcast_covered server_admitting"
    by (simp add: broadcast_covered_def server_admitting_def server_example_eq
        newManifestServiceServer_def)
  obtain st' r where s: "processUpdates_select (controller_winds 10) recv_addClientChan server_admitting = (st', r)"
    by (cases "processUpdates_select (controller_winds 10) recv_addClientChan server_admitting")
  from admission_assigns_fresh_id_and_pushes_baseline [OF a b(2) c e s]
  have "clientID st' = clientID server_admitting + 1
     \<and> addClient_replies st' 3 = addClient_replies server_admitting 3 @ [clientID st']
     \<and> updates_sent st' 4 = updates_sent server_admitting 4 @ [lastUpdate_ptr]"
    by simp
  then show ?thesis using a b d e by (simp add: s)
qed

end
